theory Spec2Isabelle
  imports Complex_Main
begin

section \<open>Project status engine: data model\<close>

text \<open>
  The development follows \<^verbatim>\<open>project_status_engine.py\<close>. Python floats are read as real
  numbers and a decimal literal denotes its decimal value (their arithmetic is a parameter,
  see below); Python's unbounded integers are \<^typ>\<open>int\<close>. A dictionary whose keys are fixed by the code is a record, and a key that may
  be absent is an \<open>option\<close> field (\<open>None\<close>: the key is missing).
\<close>

datatype StatusColor = GREEN | AMBER | RED | BLUE | GREY

datatype TrendDirection = UP | DOWN | FLAT

datatype py_error = ValueError | KeyError | TypeError | OverflowError

record HealthMetrics =
  spi :: real
  cpi :: real
  quality_score :: real
  risk_score :: real
  defect_count :: int
  sev1_defects :: int
  sev2_defects :: int
  milestone_completion_rate :: real
  scope_change_percentage :: real
  resource_utilization :: real
  stakeholder_satisfaction :: real

text \<open>The dataclass defaults of \<^verbatim>\<open>HealthMetrics\<close>.\<close>

definition default_metrics :: HealthMetrics where
  "default_metrics =
     \<lparr>spi = 1.0, cpi = 1.0, quality_score = 1.0, risk_score = 0.0, defect_count = 0,
      sev1_defects = 0, sev2_defects = 0, milestone_completion_rate = 1.0,
      scope_change_percentage = 0.0, resource_utilization = 1.0,
      stakeholder_satisfaction = 1.0\<rparr>"

text \<open>
  A highlight or lowlight is a dictionary with the keys below; \<^verbatim>\<open>action_required\<close> is
  present in lowlights only. The description and the metric are f-strings: a list of
  literal pieces and formatted values, the format specification kept with the value
  (\<^verbatim>\<open>:.2f\<close>, \<^verbatim>\<open>:.0%\<close>, or none for an integer).
\<close>

datatype fragment = Lit string | Fixed2 real | Percent0 real | Dec int

record entry =
  category :: string
  title :: string
  description :: "fragment list"
  impact :: string
  metric :: "fragment list"
  action_required :: "string option"

text \<open>
  The input of the engine, with the keys the code reads: a project has optional
  \<^verbatim>\<open>id\<close>, \<^verbatim>\<open>name\<close>, \<^verbatim>\<open>milestones\<close>, \<^verbatim>\<open>risks\<close> and \<^verbatim>\<open>kpis\<close>; a KPI value is an integer.
\<close>

record milestone =
  status :: "string option"

record risk =
  severity :: "string option"

record kpi =
  kpi_metric :: "string option"
  kpi_value :: "int option"

record project_data =
  pd_id :: "string option"
  pd_name :: "string option"
  pd_milestones :: "milestone list option"
  pd_risks :: "risk list option"
  pd_kpis :: "kpi list option"

text \<open>
  A historical record. Its date is the string the code hands to
  \<^verbatim>\<open>datetime.fromisoformat\<close>. A timestamp counts microseconds; a parsed date is naive (a
  local timestamp) or offset-aware (an instant).
\<close>

type_synonym datetime = int

datatype parsed_datetime = Naive datetime | Aware datetime

record hist =
  date :: "string option"
  hist_spi :: "real option"
  hist_cpi :: "real option"
  issues :: "int option"
  completion :: "real option"

record agg =
  avg_spi :: real
  avg_cpi :: real
  total_issues :: int
  completion_rate :: real

record trends =
  schedule :: TrendDirection
  cost :: TrendDirection
  quality :: TrendDirection

record period =
  period_start :: datetime
  period_end :: datetime
  period_metrics :: agg

record comparison =
  current_period :: period
  previous_period :: period
  comparison_trends :: trends

text \<open>\<^verbatim>\<open>comparison_period\<close> is \<open>None\<close> for the empty dictionary \<^verbatim>\<open>{}\<close>.\<close>

record ProjectStatus =
  ps_project_id :: string
  ps_project_name :: string
  ps_overall_status :: StatusColor
  ps_trend :: TrendDirection
  ps_health_metrics :: HealthMetrics
  ps_highlights :: "entry list"
  ps_lowlights :: "entry list"
  ps_confidence_score :: real
  ps_evaluation_date :: datetime
  ps_comparison_period :: "comparison option"

text \<open>\<^verbatim>\<open>d.get(key, default)\<close> on an optional key.\<close>

definition dict_get :: "'a option \<Rightarrow> 'a \<Rightarrow> 'a" where
  "dict_get v d = (case v of None \<Rightarrow> d | Some x \<Rightarrow> x)"

section \<open>RAGEvaluator\<close>

text \<open>
  The entries of \<^verbatim>\<open>THRESHOLDS\<close> that the classifiers read. The other entries of the table
  (\<^verbatim>\<open>slip_max\<close>, \<^verbatim>\<open>eac_variance_max\<close>, \<^verbatim>\<open>defect_trend_max\<close>, \<^verbatim>\<open>high_risks_max\<close> and the
  whole \<^verbatim>\<open>red\<close> band) are never read.
\<close>

definition schedule_green_spi_min :: real where "schedule_green_spi_min = 0.98"
definition schedule_amber_spi_min :: real where "schedule_amber_spi_min = 0.90"
definition cost_green_cpi_min :: real where "cost_green_cpi_min = 0.98"
definition cost_amber_cpi_min :: real where "cost_amber_cpi_min = 0.90"
definition quality_green_sev1_max :: int where "quality_green_sev1_max = 0"
definition quality_green_sev2_max :: int where "quality_green_sev2_max = 0"
definition quality_amber_sev1_max :: int where "quality_amber_sev1_max = 0"
definition quality_amber_sev2_max :: int where "quality_amber_sev2_max = 3"
definition risk_green_risk_score_max :: real where "risk_green_risk_score_max = 0.3"
definition risk_amber_risk_score_max :: real where "risk_amber_risk_score_max = 0.6"

definition evaluate_schedule_health :: "HealthMetrics \<Rightarrow> StatusColor" where
  "evaluate_schedule_health metrics =
     (if spi metrics \<ge> schedule_green_spi_min then GREEN
      else if spi metrics \<ge> schedule_amber_spi_min then AMBER
      else RED)"

definition evaluate_cost_health :: "HealthMetrics \<Rightarrow> StatusColor" where
  "evaluate_cost_health metrics =
     (if cpi metrics \<ge> cost_green_cpi_min then GREEN
      else if cpi metrics \<ge> cost_amber_cpi_min then AMBER
      else RED)"

definition evaluate_quality_health :: "HealthMetrics \<Rightarrow> StatusColor" where
  "evaluate_quality_health metrics =
     (if sev1_defects metrics \<le> quality_green_sev1_max \<and>
         sev2_defects metrics \<le> quality_green_sev2_max then GREEN
      else if sev1_defects metrics \<le> quality_amber_sev1_max \<and>
              sev2_defects metrics \<le> quality_amber_sev2_max then AMBER
      else RED)"

definition evaluate_risk_health :: "HealthMetrics \<Rightarrow> StatusColor" where
  "evaluate_risk_health metrics =
     (if risk_score metrics \<le> risk_green_risk_score_max then GREEN
      else if risk_score metrics \<le> risk_amber_risk_score_max then AMBER
      else RED)"

text \<open>
  \<^verbatim>\<open>severity_map.get(s, 0)\<close>: the dictionary has the three keys green, amber and red, and
  every other colour reads the default 0.
\<close>

fun severity_map :: "StatusColor \<Rightarrow> nat option" where
  "severity_map GREEN = Some 0"
| "severity_map AMBER = Some 1"
| "severity_map RED = Some 2"
| "severity_map _ = None"

definition severity_get :: "StatusColor \<Rightarrow> nat" where
  "severity_get s = dict_get (severity_map s) 0"

text \<open>\<^verbatim>\<open>status_map[k]\<close>: a subscript, so a key outside 0, 1, 2 raises \<^verbatim>\<open>KeyError\<close>.\<close>

definition status_map :: "nat \<Rightarrow> py_error + StatusColor" where
  "status_map k =
     (if k = 0 then Inr GREEN else if k = 1 then Inr AMBER else if k = 2 then Inr RED
      else Inl KeyError)"

text \<open>Python's \<^verbatim>\<open>max\<close> of a list: \<^verbatim>\<open>ValueError\<close> on the empty list.\<close>

fun py_max :: "nat list \<Rightarrow> py_error + nat" where
  "py_max [] = Inl ValueError"
| "py_max (x # xs) = Inr (fold max xs x)"

text \<open>
  The five "has real data" flags, and \<^verbatim>\<open>sum(data_points) / len(data_points)\<close>: the sum of
  a list of booleans counts the true ones, and \<^verbatim>\<open>/\<close> is true division.
\<close>

definition data_points :: "HealthMetrics \<Rightarrow> bool list" where
  "data_points metrics =
     [spi metrics \<noteq> 1.0,
      cpi metrics \<noteq> 1.0,
      quality_score metrics \<noteq> 1.0,
      risk_score metrics \<noteq> 0.0,
      milestone_completion_rate metrics \<noteq> 1.0]"

definition sum_bools :: "bool list \<Rightarrow> nat" where
  "sum_bools bs = sum_list (map (\<lambda>b. if b then 1 else 0) bs)"

definition calculate_overall_status :: "HealthMetrics \<Rightarrow> py_error + (StatusColor \<times> real)" where
  "calculate_overall_status metrics =
     (let schedule_status = evaluate_schedule_health metrics;
          cost_status = evaluate_cost_health metrics;
          quality_status = evaluate_quality_health metrics;
          risk_status = evaluate_risk_health metrics;
          statuses = [schedule_status, cost_status, quality_status, risk_status];
          severities = map severity_get statuses
      in case py_max severities of
           Inl e \<Rightarrow> Inl e
         | Inr worst_severity \<Rightarrow>
             (let confidence = real (sum_bools (data_points metrics)) /
                               real (length (data_points metrics))
              in case status_map worst_severity of
                   Inl e \<Rightarrow> Inl e
                 | Inr overall_status \<Rightarrow> Inr (overall_status, confidence)))"

section \<open>HighlightDetector\<close>

text \<open>
  The triggers that the detector reads from \<^verbatim>\<open>HIGHLIGHT_TRIGGERS\<close> and
  \<^verbatim>\<open>LOWLIGHT_TRIGGERS\<close>; the bounds 0.95 (milestone completion) and 0.6 (risk score) are
  literals in the code.
\<close>

definition highlight_schedule_spi_threshold :: real where
  "highlight_schedule_spi_threshold = 1.05"
definition highlight_cost_cpi_threshold :: real where
  "highlight_cost_cpi_threshold = 1.05"
definition lowlight_schedule_spi_threshold :: real where
  "lowlight_schedule_spi_threshold = 0.95"
definition lowlight_cost_cpi_threshold :: real where
  "lowlight_cost_cpi_threshold = 0.95"
definition lowlight_quality_sev1_count :: int where
  "lowlight_quality_sev1_count = 1"

text \<open>
  Both detectors start from the empty list and append one record for each rule that holds,
  in the order of the source. The parameters \<open>previous_metrics\<close> and \<open>project_data\<close> are
  never read.
\<close>

definition detect_highlights ::
    "HealthMetrics \<Rightarrow> HealthMetrics option \<Rightarrow> project_data \<Rightarrow> entry list" where
  "detect_highlights current_metrics previous_metrics pdata =
     (let highlights = [];
          highlights =
            (if spi current_metrics \<ge> highlight_schedule_spi_threshold
             then highlights @
               [\<lparr>category = ''schedule'',
                 title = ''Schedule Performance Exceeds Target'',
                 description = [Lit ''SPI at '', Fixed2 (spi current_metrics),
                                Lit '', indicating ahead of schedule''],
                 impact = ''positive'',
                 metric = [Lit ''SPI: '', Fixed2 (spi current_metrics)],
                 action_required = None\<rparr>]
             else highlights);
          highlights =
            (if cpi current_metrics \<ge> highlight_cost_cpi_threshold
             then highlights @
               [\<lparr>category = ''cost'',
                 title = ''Cost Performance Under Budget'',
                 description = [Lit ''CPI at '', Fixed2 (cpi current_metrics),
                                Lit '', indicating cost savings''],
                 impact = ''positive'',
                 metric = [Lit ''CPI: '', Fixed2 (cpi current_metrics)],
                 action_required = None\<rparr>]
             else highlights);
          highlights =
            (if sev1_defects current_metrics = 0 \<and> sev2_defects current_metrics = 0
             then highlights @
               [\<lparr>category = ''quality'',
                 title = ''Zero Critical Defects'',
                 description = [Lit ''No Severity 1 or 2 defects in current period''],
                 impact = ''positive'',
                 metric = [Lit ''Sev-1: 0, Sev-2: 0''],
                 action_required = None\<rparr>]
             else highlights);
          highlights =
            (if milestone_completion_rate current_metrics > 0.95
             then highlights @
               [\<lparr>category = ''delivery'',
                 title = ''Strong Milestone Achievement'',
                 description = [Percent0 (milestone_completion_rate current_metrics),
                                Lit '' milestone completion rate''],
                 impact = ''positive'',
                 metric = [Lit ''Completion: '',
                           Percent0 (milestone_completion_rate current_metrics)],
                 action_required = None\<rparr>]
             else highlights)
      in highlights)"

definition detect_lowlights ::
    "HealthMetrics \<Rightarrow> HealthMetrics option \<Rightarrow> project_data \<Rightarrow> entry list" where
  "detect_lowlights current_metrics previous_metrics pdata =
     (let lowlights = [];
          lowlights =
            (if spi current_metrics \<le> lowlight_schedule_spi_threshold
             then lowlights @
               [\<lparr>category = ''schedule'',
                 title = ''Schedule Slippage Detected'',
                 description = [Lit ''SPI at '', Fixed2 (spi current_metrics),
                                Lit '', indicating behind schedule''],
                 impact = ''negative'',
                 metric = [Lit ''SPI: '', Fixed2 (spi current_metrics)],
                 action_required = Some ''Schedule recovery plan needed''\<rparr>]
             else lowlights);
          lowlights =
            (if cpi current_metrics \<le> lowlight_cost_cpi_threshold
             then lowlights @
               [\<lparr>category = ''cost'',
                 title = ''Cost Overrun Risk'',
                 description = [Lit ''CPI at '', Fixed2 (cpi current_metrics),
                                Lit '', indicating cost overrun''],
                 impact = ''negative'',
                 metric = [Lit ''CPI: '', Fixed2 (cpi current_metrics)],
                 action_required = Some ''Cost mitigation strategy required''\<rparr>]
             else lowlights);
          lowlights =
            (if sev1_defects current_metrics \<ge> lowlight_quality_sev1_count
             then lowlights @
               [\<lparr>category = ''quality'',
                 title = ''Critical Defects Present'',
                 description = [Dec (sev1_defects current_metrics),
                                Lit '' Severity 1 defects open''],
                 impact = ''negative'',
                 metric = [Lit ''Sev-1: '', Dec (sev1_defects current_metrics)],
                 action_required = Some ''Immediate defect resolution required''\<rparr>]
             else lowlights);
          lowlights =
            (if risk_score current_metrics > 0.6
             then lowlights @
               [\<lparr>category = ''risk'',
                 title = ''High Risk Exposure'',
                 description = [Lit ''Risk score at '', Fixed2 (risk_score current_metrics)],
                 impact = ''negative'',
                 metric = [Lit ''Risk Score: '', Fixed2 (risk_score current_metrics)],
                 action_required = Some ''Risk mitigation plan needed''\<rparr>]
             else lowlights)
      in lowlights)"

section \<open>Float arithmetic\<close>

text \<open>
  A float is read as a real number, and comparisons are those of the reals. The arithmetic
  of Python on floats rounds, so its results are not those of the reals; an operation that
  has to turn an unbounded integer into a float raises \<^verbatim>\<open>OverflowError\<close> when the integer does
  not fit. The operations that the code applies are therefore parameters: whatever is
  proved holds for every choice of them, that of the interpreter included. A count is the
  length of a list; it always converts. Infinities and NaN are outside the carrier.
\<close>

record float_ops =
  count_truediv :: "nat \<Rightarrow> nat \<Rightarrow> real"
  count_mul_float :: "nat \<Rightarrow> real \<Rightarrow> real"
  int_truediv :: "int \<Rightarrow> int \<Rightarrow> real option"
  int_mul_float :: "int \<Rightarrow> real \<Rightarrow> real option"
  float_sub :: "real \<Rightarrow> real \<Rightarrow> real"
  float_mul :: "real \<Rightarrow> real \<Rightarrow> real"
  float_sum :: "real list \<Rightarrow> real"
  float_div_count :: "real \<Rightarrow> nat \<Rightarrow> real"

text \<open>
  \<^item> \<open>count_truediv a b\<close> is \<^verbatim>\<open>a / b\<close> on two counts, \<open>b\<close> not zero;
  \<^item> \<open>count_mul_float n x\<close> is \<^verbatim>\<open>n * x\<close> for a count \<open>n\<close> and a float \<open>x\<close>;
  \<^item> \<open>int_truediv a b\<close> is \<^verbatim>\<open>a / b\<close> on two integers, \<open>b\<close> not zero (\<open>None\<close>: the quotient is
    too large for a float, \<^verbatim>\<open>OverflowError\<close>);
  \<^item> \<open>int_mul_float n x\<close> is \<^verbatim>\<open>n * x\<close> for an integer \<open>n\<close> and a float \<open>x\<close> (\<open>None\<close>: \<open>n\<close> is
    too large to convert, \<^verbatim>\<open>OverflowError\<close>);
  \<^item> \<open>float_sub x y\<close> is \<^verbatim>\<open>x - y\<close> and \<open>float_mul x y\<close> is \<^verbatim>\<open>x * y\<close> on floats;
  \<^item> \<open>float_sum xs\<close> is \<^verbatim>\<open>sum(xs)\<close> for a list of floats;
  \<^item> \<open>float_div_count x n\<close> is \<^verbatim>\<open>x / n\<close> for a float \<open>x\<close> and a count \<open>n\<close>, not zero.

  One instance, used to evaluate examples: the operations without rounding, the two
  conversions of integers overflowing outside the range of a double.
\<close>

definition exact_ops :: float_ops where
  "exact_ops =
     \<lparr>count_truediv = (\<lambda>a b. real a / real b),
      count_mul_float = (\<lambda>n x. real n * x),
      int_truediv =
        (\<lambda>a b. if \<bar>real_of_int a / real_of_int b\<bar> < 2 ^ 1024
                then Some (real_of_int a / real_of_int b) else None),
      int_mul_float =
        (\<lambda>n x. if \<bar>real_of_int n\<bar> < 2 ^ 1024 then Some (real_of_int n * x) else None),
      float_sub = (\<lambda>x y. x - y),
      float_mul = (\<lambda>x y. x * y),
      float_sum = sum_list,
      float_div_count = (\<lambda>x n. x / real n)\<rparr>"

section \<open>ProjectComparator\<close>

text \<open>
  \<^verbatim>\<open>datetime.fromisoformat\<close> belongs to the standard library: it is a parameter here, a
  function from the date string to the value it denotes, \<open>None\<close> when the string does not
  parse (the library raises \<^verbatim>\<open>ValueError\<close>). The value is a naive datetime or, when the string
  carries a UTC offset, an offset-aware one. The clock reading of \<^verbatim>\<open>datetime.now()\<close> is a
  parameter as well; it is naive.
\<close>

definition timedelta_days :: "int \<Rightarrow> int" where
  "timedelta_days d = d * 86400000000"

text \<open>
  \<^verbatim>\<open>start <= item_date <= end\<close> with naive bounds: ordering a naive and an offset-aware
  datetime raises \<^verbatim>\<open>TypeError\<close>.
\<close>

fun in_period :: "datetime \<Rightarrow> parsed_datetime \<Rightarrow> datetime \<Rightarrow> py_error + bool" where
  "in_period start (Naive item_date) finish = Inr (start \<le> item_date \<and> item_date \<le> finish)"
| "in_period start (Aware item_date) finish = Inl TypeError"

text \<open>
  The loop of \<^verbatim>\<open>_filter_period_data\<close>, with the list \<open>filtered\<close> built so far. A record
  without the key \<^verbatim>\<open>date\<close> is skipped; a date that does not parse, and an offset-aware one,
  raise out of the loop.
\<close>

fun filter_loop ::
    "(string \<Rightarrow> parsed_datetime option) \<Rightarrow> datetime \<Rightarrow> datetime \<Rightarrow> hist list \<Rightarrow> hist list
       \<Rightarrow> py_error + hist list" where
  "filter_loop fromisoformat start finish [] filtered = Inr filtered"
| "filter_loop fromisoformat start finish (item # rest) filtered =
     (case date item of
        None \<Rightarrow> filter_loop fromisoformat start finish rest filtered
      | Some s \<Rightarrow>
          (case fromisoformat s of
             None \<Rightarrow> Inl ValueError
           | Some item_date \<Rightarrow>
               (case in_period start item_date finish of
                  Inl e \<Rightarrow> Inl e
                | Inr inside \<Rightarrow>
                    if inside
                    then filter_loop fromisoformat start finish rest (filtered @ [item])
                    else filter_loop fromisoformat start finish rest filtered)))"

definition filter_period_data ::
    "(string \<Rightarrow> parsed_datetime option) \<Rightarrow> hist list \<Rightarrow> datetime \<Rightarrow> datetime
       \<Rightarrow> py_error + hist list" where
  "filter_period_data fromisoformat data start finish =
     filter_loop fromisoformat start finish data []"

text \<open>The sum of the issue counts is a sum of integers: it is exact.\<close>

definition aggregate_metrics :: "float_ops \<Rightarrow> hist list \<Rightarrow> agg" where
  "aggregate_metrics ops period_data =
     (if period_data = [] then
        \<lparr>avg_spi = 1.0, avg_cpi = 1.0, total_issues = 0, completion_rate = 0.0\<rparr>
      else
        \<lparr>avg_spi =
           float_div_count ops
             (float_sum ops (map (\<lambda>d. dict_get (hist_spi d) 1.0) period_data))
             (length period_data),
         avg_cpi =
           float_div_count ops
             (float_sum ops (map (\<lambda>d. dict_get (hist_cpi d) 1.0) period_data))
             (length period_data),
         total_issues = sum_list (map (\<lambda>d. dict_get (issues d) 0) period_data),
         completion_rate =
           float_div_count ops
             (float_sum ops (map (\<lambda>d. dict_get (completion d) 0) period_data))
             (length period_data)\<rparr>)"

text \<open>
  The three trends, computed in the order schedule, cost, quality. The bounds of the
  quality trend multiply the integer \<^verbatim>\<open>total_issues\<close> by a float; the second bound is computed
  only when the first test fails.
\<close>

definition calculate_trends :: "float_ops \<Rightarrow> hist list \<Rightarrow> hist list \<Rightarrow> py_error + trends" where
  "calculate_trends ops recent previous =
     (let recent_metrics = aggregate_metrics ops recent;
          previous_metrics = aggregate_metrics ops previous;
          schedule_trend =
            (if avg_spi recent_metrics > float_mul ops (avg_spi previous_metrics) 1.02 then UP
             else if avg_spi recent_metrics < float_mul ops (avg_spi previous_metrics) 0.98
               then DOWN
             else FLAT);
          cost_trend =
            (if avg_cpi recent_metrics > float_mul ops (avg_cpi previous_metrics) 1.02 then UP
             else if avg_cpi recent_metrics < float_mul ops (avg_cpi previous_metrics) 0.98
               then DOWN
             else FLAT);
          result = (\<lambda>quality_trend.
            \<lparr>schedule = schedule_trend, cost = cost_trend, quality = quality_trend\<rparr>)
      in case int_mul_float ops (total_issues previous_metrics) 0.9 of
           None \<Rightarrow> Inl OverflowError
         | Some low \<Rightarrow>
             if real_of_int (total_issues recent_metrics) < low then Inr (result UP)
             else
               (case int_mul_float ops (total_issues previous_metrics) 1.1 of
                  None \<Rightarrow> Inl OverflowError
                | Some high \<Rightarrow>
                    if real_of_int (total_issues recent_metrics) > high
                    then Inr (result DOWN)
                    else Inr (result FLAT)))"

text \<open>
  \<^verbatim>\<open>calculate_7day_comparison\<close>; the parameter \<open>current_data\<close> is never read. The two
  \<^verbatim>\<open>isoformat()\<close> strings of a period are kept as the timestamps they print.
\<close>

definition calculate_7day_comparison ::
    "float_ops \<Rightarrow> (string \<Rightarrow> parsed_datetime option) \<Rightarrow> datetime \<Rightarrow> project_data \<Rightarrow> hist list
       \<Rightarrow> py_error + comparison" where
  "calculate_7day_comparison ops fromisoformat now current_data historical_data =
     (let current_date = now;
          seven_days_ago = current_date - timedelta_days 7;
          fourteen_days_ago = current_date - timedelta_days 14
      in case filter_period_data fromisoformat historical_data seven_days_ago current_date of
           Inl e \<Rightarrow> Inl e
         | Inr recent_period \<Rightarrow>
             (case filter_period_data fromisoformat historical_data
                     fourteen_days_ago seven_days_ago of
                Inl e \<Rightarrow> Inl e
              | Inr previous_period' \<Rightarrow>
                  (case calculate_trends ops recent_period previous_period' of
                     Inl e \<Rightarrow> Inl e
                   | Inr trends \<Rightarrow>
                       Inr \<lparr>current_period =
                              \<lparr>period_start = seven_days_ago,
                               period_end = current_date,
                               period_metrics = aggregate_metrics ops recent_period\<rparr>,
                            previous_period =
                              \<lparr>period_start = fourteen_days_ago,
                               period_end = seven_days_ago,
                               period_metrics = aggregate_metrics ops previous_period'\<rparr>,
                            comparison_trends = trends\<rparr>)))"

section \<open>ProjectStatusEngine\<close>

text \<open>
  \<^verbatim>\<open>str.lower()\<close> on the letters A to Z, every other character unchanged, and the
  substring test \<^verbatim>\<open>sub in s\<close>.
\<close>

definition lower_char :: "char \<Rightarrow> char" where
  "lower_char c =
     (let n = (of_char c :: nat) in if 65 \<le> n \<and> n \<le> 90 then char_of (n + 32) else c)"

definition lower :: "string \<Rightarrow> string" where
  "lower s = map lower_char s"

fun contains :: "string \<Rightarrow> string \<Rightarrow> bool" where
  "contains sub [] = (sub = [])"
| "contains sub (c # cs) = (take (length sub) (c # cs) = sub \<or> contains sub cs)"

text \<open>\<^verbatim>\<open>next((k for k in kpis if ...), {})\<close>: the first match, else the empty dictionary.\<close>

definition empty_kpi :: kpi where
  "empty_kpi = \<lparr>kpi_metric = None, kpi_value = None\<rparr>"

text \<open>
  \<^verbatim>\<open>_extract_metrics\<close>. The quotient \<^verbatim>\<open>issue_count / 100\<close> divides two integers into a float: it
  raises \<^verbatim>\<open>OverflowError\<close> when the issue count is too large in absolute value, and it is
  computed only when \<^verbatim>\<open>issue_count < 100\<close>.
\<close>

definition extract_metrics :: "float_ops \<Rightarrow> project_data \<Rightarrow> py_error + HealthMetrics" where
  "extract_metrics ops pdata =
     (let milestones = dict_get (pd_milestones pdata) [];
          completed = length (filter (\<lambda>m. status m = Some ''completed'') milestones);
          total = (if milestones \<noteq> [] then length milestones else 1);
          milestone_rate = (if total > 0 then count_truediv ops completed total else 0);
          risks = dict_get (pd_risks pdata) [];
          high_risks = length (filter (\<lambda>r. severity r = Some ''high'') risks);
          risk_score' = min (count_mul_float ops high_risks 0.3) 1.0;
          kpis = dict_get (pd_kpis pdata) [];
          issues_kpi =
            dict_get (find (\<lambda>k. contains ''issue'' (lower (dict_get (kpi_metric k) []))) kpis)
              empty_kpi;
          issue_count = dict_get (kpi_value issues_kpi) 0;
          spi' = (if list_ex (\<lambda>m. status m = Some ''at-risk'') milestones
                  then 0.95 else 1.02);
          cpi' = 0.98;
          sev1_defects' = max 0 (issue_count div 10);
          sev2_defects' = max 0 (issue_count div 5 - sev1_defects');
          result = (\<lambda>quality_score'.
            \<lparr>spi = spi',
             cpi = cpi',
             quality_score = quality_score',
             risk_score = risk_score',
             defect_count = issue_count,
             sev1_defects = sev1_defects',
             sev2_defects = sev2_defects',
             milestone_completion_rate = milestone_rate,
             scope_change_percentage = 0.0,
             resource_utilization = 1.0,
             stakeholder_satisfaction = 0.85\<rparr>)
      in if issue_count < 100
         then (case int_truediv ops issue_count 100 of
                 None \<Rightarrow> Inl OverflowError
               | Some q \<Rightarrow> Inr (result (float_sub ops 1.0 q)))
         else Inr (result 0.0))"

text \<open>
  \<^verbatim>\<open>max(iterable, key=...)\<close>: the first element, in iteration order, whose key is
  greatest; \<^verbatim>\<open>ValueError\<close> when there is none.
\<close>

fun max_key :: "('a \<Rightarrow> nat) \<Rightarrow> 'a list \<Rightarrow> py_error + 'a" where
  "max_key key [] = Inl ValueError"
| "max_key key (x # xs) =
     Inr (fold (\<lambda>y best. if key y > key best then y else best) xs x)"

text \<open>
  \<^verbatim>\<open>evaluate_project\<close>. The order in which Python iterates \<^verbatim>\<open>set(trend_values)\<close> is
  the parameter \<open>set_iter\<close>; \<open>now\<close> is the clock reading inside the comparator and
  \<open>stamp\<close> the one taken for \<^verbatim>\<open>evaluation_date\<close>. An absent or empty history is falsy, so
  the comparator is not called for it.
\<close>

definition evaluate_project ::
    "float_ops \<Rightarrow> (string \<Rightarrow> parsed_datetime option)
       \<Rightarrow> (TrendDirection list \<Rightarrow> TrendDirection list)
       \<Rightarrow> datetime \<Rightarrow> datetime \<Rightarrow> project_data \<Rightarrow> hist list option
       \<Rightarrow> py_error + ProjectStatus" where
  "evaluate_project ops fromisoformat set_iter now stamp pdata historical_data =
     (case extract_metrics ops pdata of
        Inl e \<Rightarrow> Inl e
      | Inr metrics \<Rightarrow>
     (case calculate_overall_status metrics of
        Inl e \<Rightarrow> Inl e
      | Inr (overall_status, confidence) \<Rightarrow>
          (let hls = detect_highlights metrics None pdata;
               lls = detect_lowlights metrics None pdata;
               result =
                 (\<lambda>comparison trend.
                    \<lparr>ps_project_id = dict_get (pd_id pdata) ''unknown'',
                     ps_project_name = dict_get (pd_name pdata) ''Unknown Project'',
                     ps_overall_status = overall_status,
                     ps_trend = trend,
                     ps_health_metrics = metrics,
                     ps_highlights = hls,
                     ps_lowlights = lls,
                     ps_confidence_score = confidence,
                     ps_evaluation_date = stamp,
                     ps_comparison_period = comparison\<rparr>)
           in if historical_data = None \<or> historical_data = Some []
              then Inr (result None FLAT)
              else
                (case calculate_7day_comparison ops fromisoformat now pdata
                        (dict_get historical_data []) of
                   Inl e \<Rightarrow> Inl e
                 | Inr comparison \<Rightarrow>
                     (let trends = comparison_trends comparison;
                          trend_values = [schedule trends, cost trends, quality trends]
                      in if trend_values \<noteq> []
                         then (case max_key (count_list trend_values)
                                      (set_iter trend_values) of
                                 Inl e \<Rightarrow> Inl e
                               | Inr trend \<Rightarrow> Inr (result (Some comparison) trend))
                         else Inr (result (Some comparison) FLAT))))))"

section \<open>Properties of the evaluator\<close>

lemmas thresholds =
  schedule_green_spi_min_def schedule_amber_spi_min_def
  cost_green_cpi_min_def cost_amber_cpi_min_def
  quality_green_sev1_max_def quality_green_sev2_max_def
  quality_amber_sev1_max_def quality_amber_sev2_max_def
  risk_green_risk_score_max_def risk_amber_risk_score_max_def

lemma severity_get_simps [simp]:
  "severity_get GREEN = 0" "severity_get AMBER = 1" "severity_get RED = 2"
  "severity_get BLUE = 0" "severity_get GREY = 0"
  by (simp_all add: severity_get_def dict_get_def)

lemma severity_get_le2: "severity_get s \<le> 2"
  by (cases s) simp_all

lemma severity_get_eq_2: "(severity_get s = 2) = (s = RED)"
  by (cases s) simp_all

lemma status_map_le2:
  assumes "k \<le> 2"
  shows "\<exists>st. status_map k = Inr st \<and> severity_get st = k"
proof -
  from assms have "k = 0 \<or> k = 1 \<or> k = 2" by arith
  then show ?thesis by (auto simp: status_map_def)
qed

lemma status_map_range:
  assumes "status_map k = Inr st"
  shows "st = GREEN \<or> st = AMBER \<or> st = RED"
  using assms by (auto simp: status_map_def split: if_splits)

lemma max_eq_2:
  fixes a b :: nat
  assumes "a \<le> 2" "b \<le> 2"
  shows "(max a b = 2) = (a = 2 \<or> b = 2)"
  using assms by (auto simp: max_def)

lemma length_data_points: "length (data_points m) = 5"
  by (simp add: data_points_def)

lemma sum_bools_data_points:
  "sum_bools (data_points m) =
     of_bool (spi m \<noteq> 1) + of_bool (cpi m \<noteq> 1) + of_bool (quality_score m \<noteq> 1) +
     of_bool (risk_score m \<noteq> 0) + of_bool (milestone_completion_rate m \<noteq> 1)"
  by (simp add: data_points_def sum_bools_def of_bool_def)

text \<open>
  The severities are at most 2, so the subscript into \<^verbatim>\<open>status_map\<close> never raises and
  the evaluator always returns.
\<close>

lemma calculate_overall_status_unfold:
  "calculate_overall_status m =
     (case status_map
             (max (severity_get (evaluate_risk_health m))
                (max (severity_get (evaluate_quality_health m))
                   (max (severity_get (evaluate_cost_health m))
                      (severity_get (evaluate_schedule_health m))))) of
        Inl e \<Rightarrow> Inl e
      | Inr st \<Rightarrow> Inr (st, real (sum_bools (data_points m)) / 5))"
  by (simp add: calculate_overall_status_def Let_def length_data_points)

lemma calculate_overall_status_eq:
  "\<exists>st. calculate_overall_status m = Inr (st, real (sum_bools (data_points m)) / 5) \<and>
        severity_get st =
          max (severity_get (evaluate_risk_health m))
            (max (severity_get (evaluate_quality_health m))
               (max (severity_get (evaluate_cost_health m))
                  (severity_get (evaluate_schedule_health m))))"
proof -
  let ?w = "max (severity_get (evaluate_risk_health m))
              (max (severity_get (evaluate_quality_health m))
                 (max (severity_get (evaluate_cost_health m))
                    (severity_get (evaluate_schedule_health m))))"
  have "?w \<le> 2" by (simp add: severity_get_le2)
  from status_map_le2 [OF this]
  obtain st where "status_map ?w = Inr st" "severity_get st = ?w"
    by blast
  then show ?thesis
    by (simp add: calculate_overall_status_unfold)
qed

text \<open>
  C1. For every metrics snapshot \<^verbatim>\<open>calculate_overall_status\<close> returns green, amber or
  red, and the severity of the overall status (green 0, amber 1, red 2) is the maximum of
  the severities of the schedule, cost, quality and risk statuses. So it is at least the severity of each
  dimension, and the overall status is red exactly when some dimension is red.
\<close>

theorem overall_status_is_worst_dimension:
  "\<exists>st c. calculate_overall_status m = Inr (st, c) \<and>
     (st = GREEN \<or> st = AMBER \<or> st = RED) \<and>
     severity_get st =
       Max {severity_get (evaluate_schedule_health m), severity_get (evaluate_cost_health m),
            severity_get (evaluate_quality_health m), severity_get (evaluate_risk_health m)} \<and>
     severity_get (evaluate_schedule_health m) \<le> severity_get st \<and>
     severity_get (evaluate_cost_health m) \<le> severity_get st \<and>
     severity_get (evaluate_quality_health m) \<le> severity_get st \<and>
     severity_get (evaluate_risk_health m) \<le> severity_get st \<and>
     (st = RED) =
       (evaluate_schedule_health m = RED \<or> evaluate_cost_health m = RED \<or>
        evaluate_quality_health m = RED \<or> evaluate_risk_health m = RED)"
proof -
  let ?a = "severity_get (evaluate_schedule_health m)"
  let ?b = "severity_get (evaluate_cost_health m)"
  let ?c = "severity_get (evaluate_quality_health m)"
  let ?d = "severity_get (evaluate_risk_health m)"
  obtain st where st: "calculate_overall_status m = Inr (st, real (sum_bools (data_points m)) / 5)"
    and sev: "severity_get st = max ?d (max ?c (max ?b ?a))"
    using calculate_overall_status_eq [of m] by blast
  have mx: "Max {?a, ?b, ?c, ?d} = max ?d (max ?c (max ?b ?a))"
    by (simp add: max.commute max.left_commute)
  have red: "(st = RED) = (max ?d (max ?c (max ?b ?a)) = 2)"
    using sev by (simp add: severity_get_eq_2 [symmetric])
  have "(max ?d (max ?c (max ?b ?a)) = 2) = (?a = 2 \<or> ?b = 2 \<or> ?c = 2 \<or> ?d = 2)"
    by (simp add: max_eq_2 severity_get_le2) blast
  with red have red': "(st = RED) =
       (evaluate_schedule_health m = RED \<or> evaluate_cost_health m = RED \<or>
        evaluate_quality_health m = RED \<or> evaluate_risk_health m = RED)"
    by (simp add: severity_get_eq_2)
  show ?thesis
  proof (intro exI conjI)
    show "calculate_overall_status m = Inr (st, real (sum_bools (data_points m)) / 5)"
      by (rule st)
    show "st = GREEN \<or> st = AMBER \<or> st = RED"
      using st by (auto simp: calculate_overall_status_unfold split: sum.splits
          dest: status_map_range)
    show "severity_get st = Max {?a, ?b, ?c, ?d}"
      using sev mx by simp
    show "?a \<le> severity_get st" "?b \<le> severity_get st"
      "?c \<le> severity_get st" "?d \<le> severity_get st"
      using sev by simp_all
    show "(st = RED) =
       (evaluate_schedule_health m = RED \<or> evaluate_cost_health m = RED \<or>
        evaluate_quality_health m = RED \<or> evaluate_risk_health m = RED)"
      by (rule red')
  qed
qed

text \<open>
  A snapshot whose only deviation from the defaults is a risk score of 0.9: the risk
  dimension is red, and so is the overall status.
\<close>

theorem overall_status_is_worst_dimension_witness:
  "map_sum id fst (calculate_overall_status (default_metrics\<lparr>risk_score := 0.9\<rparr>)) = Inr RED"
proof -
  have "evaluate_risk_health (default_metrics\<lparr>risk_score := 0.9\<rparr>) = RED"
    by (simp add: evaluate_risk_health_def default_metrics_def thresholds)
  with overall_status_is_worst_dimension [of "default_metrics\<lparr>risk_score := 0.9\<rparr>"]
  show ?thesis by auto
qed

lemma evaluate_schedule_health_ladder:
  "(evaluate_schedule_health m = GREEN) = (spi m \<ge> 0.98) \<and>
   (evaluate_schedule_health m = AMBER) = (0.90 \<le> spi m \<and> spi m < 0.98) \<and>
   (evaluate_schedule_health m = RED) = (spi m < 0.90)"
  by (auto simp: evaluate_schedule_health_def thresholds)

lemma evaluate_cost_health_ladder:
  "(evaluate_cost_health m = GREEN) = (cpi m \<ge> 0.98) \<and>
   (evaluate_cost_health m = AMBER) = (0.90 \<le> cpi m \<and> cpi m < 0.98) \<and>
   (evaluate_cost_health m = RED) = (cpi m < 0.90)"
  by (auto simp: evaluate_cost_health_def thresholds)

lemma evaluate_quality_health_ladder:
  "(evaluate_quality_health m = GREEN) = (sev1_defects m \<le> 0 \<and> sev2_defects m \<le> 0) \<and>
   (evaluate_quality_health m = AMBER) =
     (sev1_defects m \<le> 0 \<and> sev2_defects m \<le> 3 \<and>
      \<not> (sev1_defects m \<le> 0 \<and> sev2_defects m \<le> 0)) \<and>
   (evaluate_quality_health m = RED) = (\<not> (sev1_defects m \<le> 0 \<and> sev2_defects m \<le> 3))"
  by (auto simp: evaluate_quality_health_def thresholds)

lemma evaluate_risk_health_ladder:
  "(evaluate_risk_health m = GREEN) = (risk_score m \<le> 0.3) \<and>
   (evaluate_risk_health m = AMBER) = (0.3 < risk_score m \<and> risk_score m \<le> 0.6) \<and>
   (evaluate_risk_health m = RED) = (risk_score m > 0.6)"
  by (auto simp: evaluate_risk_health_def thresholds)

text \<open>
  C2. Each classifier is its threshold ladder, green first, then amber, red otherwise:
  schedule is green iff spi \<ge> 0.98, amber iff 0.90 \<le> spi < 0.98, red iff spi < 0.90; cost is
  the same ladder on cpi; quality is green iff sev1 \<le> 0 and sev2 \<le> 0, amber iff sev1 \<le> 0
  and sev2 \<le> 3 and it is not green, red otherwise; risk is green iff risk_score \<le> 0.3,
  amber iff 0.3 < risk_score \<le> 0.6, red iff risk_score > 0.6.
\<close>

theorem classifiers_are_threshold_ladders:
  "(evaluate_schedule_health m = GREEN) = (spi m \<ge> 0.98) \<and>
   (evaluate_schedule_health m = AMBER) = (0.90 \<le> spi m \<and> spi m < 0.98) \<and>
   (evaluate_schedule_health m = RED) = (spi m < 0.90) \<and>
   (evaluate_cost_health m = GREEN) = (cpi m \<ge> 0.98) \<and>
   (evaluate_cost_health m = AMBER) = (0.90 \<le> cpi m \<and> cpi m < 0.98) \<and>
   (evaluate_cost_health m = RED) = (cpi m < 0.90) \<and>
   (evaluate_quality_health m = GREEN) = (sev1_defects m \<le> 0 \<and> sev2_defects m \<le> 0) \<and>
   (evaluate_quality_health m = AMBER) =
     (sev1_defects m \<le> 0 \<and> sev2_defects m \<le> 3 \<and>
      \<not> (sev1_defects m \<le> 0 \<and> sev2_defects m \<le> 0)) \<and>
   (evaluate_quality_health m = RED) = (\<not> (sev1_defects m \<le> 0 \<and> sev2_defects m \<le> 3)) \<and>
   (evaluate_risk_health m = GREEN) = (risk_score m \<le> 0.3) \<and>
   (evaluate_risk_health m = AMBER) = (0.3 < risk_score m \<and> risk_score m \<le> 0.6) \<and>
   (evaluate_risk_health m = RED) = (risk_score m > 0.6)"
  using evaluate_schedule_health_ladder [of m] evaluate_cost_health_ladder [of m]
    evaluate_quality_health_ladder [of m] evaluate_risk_health_ladder [of m]
  by (intro conjI) (rule conjunct1, assumption | (elim conjE, assumption))+

text \<open>
  A snapshot on the amber band of every ladder: spi 0.95, cpi 0.90, no severity-1 and
  three severity-2 defects, risk score 0.6.
\<close>

theorem classifiers_are_threshold_ladders_witness:
  "evaluate_schedule_health
     (default_metrics\<lparr>spi := 0.95, cpi := 0.90, sev2_defects := 3, risk_score := 0.6\<rparr>) = AMBER \<and>
   evaluate_cost_health
     (default_metrics\<lparr>spi := 0.95, cpi := 0.90, sev2_defects := 3, risk_score := 0.6\<rparr>) = AMBER \<and>
   evaluate_quality_health
     (default_metrics\<lparr>spi := 0.95, cpi := 0.90, sev2_defects := 3, risk_score := 0.6\<rparr>) = AMBER \<and>
   evaluate_risk_health
     (default_metrics\<lparr>spi := 0.95, cpi := 0.90, sev2_defects := 3, risk_score := 0.6\<rparr>) = AMBER"
  using classifiers_are_threshold_ladders
    [of "default_metrics\<lparr>spi := 0.95, cpi := 0.90, sev2_defects := 3, risk_score := 0.6\<rparr>"]
  by (simp add: default_metrics_def)

section \<open>Properties of the detector\<close>

lemmas triggers =
  highlight_schedule_spi_threshold_def highlight_cost_cpi_threshold_def
  lowlight_schedule_spi_threshold_def lowlight_cost_cpi_threshold_def
  lowlight_quality_sev1_count_def

lemma detect_highlights_rules:
  "map (\<lambda>e. (category e, title e)) (detect_highlights m pm pd) =
     map snd (filter fst
       [(spi m \<ge> 1.05, (''schedule'', ''Schedule Performance Exceeds Target'')),
        (cpi m \<ge> 1.05, (''cost'', ''Cost Performance Under Budget'')),
        (sev1_defects m = 0 \<and> sev2_defects m = 0, (''quality'', ''Zero Critical Defects'')),
        (milestone_completion_rate m > 0.95,
           (''delivery'', ''Strong Milestone Achievement''))])"
  by (simp add: detect_highlights_def Let_def triggers)

text \<open>
  C3. The highlights are the records of the rules that hold, in the order schedule
  (spi \<ge> 1.05), cost (cpi \<ge> 1.05), quality (sev1 = 0 and sev2 = 0), delivery (milestone
  completion rate > 0.95); each rule is tested on its own, whatever the other rules, the
  previous metrics and the project data are. The snapshot with spi 1.10, cpi 1.10, no
  severity-1 or severity-2 defect and completion rate 0.98, the other fields at their
  defaults, has exactly 4 highlights and no lowlight.
\<close>

theorem detect_highlights_rules_in_order:
  "map (\<lambda>e. (category e, title e)) (detect_highlights m pm pd) =
     map snd (filter fst
       [(spi m \<ge> 1.05, (''schedule'', ''Schedule Performance Exceeds Target'')),
        (cpi m \<ge> 1.05, (''cost'', ''Cost Performance Under Budget'')),
        (sev1_defects m = 0 \<and> sev2_defects m = 0, (''quality'', ''Zero Critical Defects'')),
        (milestone_completion_rate m > 0.95,
           (''delivery'', ''Strong Milestone Achievement''))]) \<and>
   length (detect_highlights
     (default_metrics\<lparr>spi := 1.10, cpi := 1.10, sev1_defects := 0, sev2_defects := 0,
        milestone_completion_rate := 0.98\<rparr>) None pd) = 4 \<and>
   detect_lowlights
     (default_metrics\<lparr>spi := 1.10, cpi := 1.10, sev1_defects := 0, sev2_defects := 0,
        milestone_completion_rate := 0.98\<rparr>) None pd = []"
proof (intro conjI)
  show "map (\<lambda>e. (category e, title e)) (detect_highlights m pm pd) =
     map snd (filter fst
       [(spi m \<ge> 1.05, (''schedule'', ''Schedule Performance Exceeds Target'')),
        (cpi m \<ge> 1.05, (''cost'', ''Cost Performance Under Budget'')),
        (sev1_defects m = 0 \<and> sev2_defects m = 0, (''quality'', ''Zero Critical Defects'')),
        (milestone_completion_rate m > 0.95,
           (''delivery'', ''Strong Milestone Achievement''))])"
    by (rule detect_highlights_rules)
  show "length (detect_highlights
     (default_metrics\<lparr>spi := 1.10, cpi := 1.10, sev1_defects := 0, sev2_defects := 0,
        milestone_completion_rate := 0.98\<rparr>) None pd) = 4"
    by (simp add: detect_highlights_def Let_def triggers default_metrics_def)
  show "detect_lowlights
     (default_metrics\<lparr>spi := 1.10, cpi := 1.10, sev1_defects := 0, sev2_defects := 0,
        milestone_completion_rate := 0.98\<rparr>) None pd = []"
    by (simp add: detect_lowlights_def Let_def triggers default_metrics_def)
qed

text \<open>The four titles of that snapshot, in rule order.\<close>

theorem detect_highlights_rules_in_order_witness:
  "map title (detect_highlights
     (default_metrics\<lparr>spi := 1.10, cpi := 1.10, sev1_defects := 0, sev2_defects := 0,
        milestone_completion_rate := 0.98\<rparr>) None
     \<lparr>pd_id = None, pd_name = None, pd_milestones = None, pd_risks = None, pd_kpis = None\<rparr>) =
   [''Schedule Performance Exceeds Target'', ''Cost Performance Under Budget'',
    ''Zero Critical Defects'', ''Strong Milestone Achievement'']"
proof -
  let ?m = "default_metrics\<lparr>spi := 1.10, cpi := 1.10, sev1_defects := 0, sev2_defects := 0,
        milestone_completion_rate := 0.98\<rparr>"
  let ?pd = "\<lparr>pd_id = None, pd_name = None, pd_milestones = None, pd_risks = None,
        pd_kpis = None\<rparr>"
  have "map title (detect_highlights ?m None ?pd) =
        map snd (map (\<lambda>e. (category e, title e)) (detect_highlights ?m None ?pd))"
    by (simp add: comp_def)
  also have "\<dots> = [''Schedule Performance Exceeds Target'', ''Cost Performance Under Budget'',
    ''Zero Critical Defects'', ''Strong Milestone Achievement'']"
    using detect_highlights_rules_in_order [of ?m None ?pd]
    by (simp add: default_metrics_def)
  finally show ?thesis .
qed

lemma detect_lowlights_rules:
  "map (\<lambda>e. (category e, title e, action_required e)) (detect_lowlights m pm pd) =
     map snd (filter fst
       [(spi m \<le> 0.95,
           (''schedule'', ''Schedule Slippage Detected'', Some ''Schedule recovery plan needed'')),
        (cpi m \<le> 0.95,
           (''cost'', ''Cost Overrun Risk'', Some ''Cost mitigation strategy required'')),
        (sev1_defects m \<ge> 1,
           (''quality'', ''Critical Defects Present'',
            Some ''Immediate defect resolution required'')),
        (risk_score m > 0.6,
           (''risk'', ''High Risk Exposure'', Some ''Risk mitigation plan needed''))])"
  by (simp add: detect_lowlights_def Let_def triggers)

lemma detect_lowlights_action:
  "list_all (\<lambda>e. action_required e \<noteq> None) (detect_lowlights m pm pd)"
  by (simp add: detect_lowlights_def Let_def)

text \<open>
  C4. The lowlights are the records of the rules that hold, in the order schedule
  (spi \<le> 0.95), cost (cpi \<le> 0.95), quality (sev1 \<ge> 1), risk (risk_score > 0.6), and each
  record carries its remediation action. The snapshot with spi 0.80, cpi 0.80, two
  severity-1 defects and risk score 0.9, the other fields at their defaults, is red overall
  and has (at least) four lowlights: schedule, cost, quality and risk.
\<close>

theorem detect_lowlights_rules_in_order:
  "map (\<lambda>e. (category e, title e, action_required e)) (detect_lowlights m pm pd) =
     map snd (filter fst
       [(spi m \<le> 0.95,
           (''schedule'', ''Schedule Slippage Detected'', Some ''Schedule recovery plan needed'')),
        (cpi m \<le> 0.95,
           (''cost'', ''Cost Overrun Risk'', Some ''Cost mitigation strategy required'')),
        (sev1_defects m \<ge> 1,
           (''quality'', ''Critical Defects Present'',
            Some ''Immediate defect resolution required'')),
        (risk_score m > 0.6,
           (''risk'', ''High Risk Exposure'', Some ''Risk mitigation plan needed''))]) \<and>
   list_all (\<lambda>e. action_required e \<noteq> None) (detect_lowlights m pm pd) \<and>
   map_sum id fst (calculate_overall_status
     (default_metrics\<lparr>spi := 0.80, cpi := 0.80, sev1_defects := 2, risk_score := 0.9\<rparr>)) =
     Inr RED \<and>
   4 \<le> length (detect_lowlights
     (default_metrics\<lparr>spi := 0.80, cpi := 0.80, sev1_defects := 2, risk_score := 0.9\<rparr>)
     None pd) \<and>
   map category (detect_lowlights
     (default_metrics\<lparr>spi := 0.80, cpi := 0.80, sev1_defects := 2, risk_score := 0.9\<rparr>)
     None pd) = [''schedule'', ''cost'', ''quality'', ''risk'']"
proof (intro conjI)
  let ?m = "default_metrics\<lparr>spi := 0.80, cpi := 0.80, sev1_defects := 2, risk_score := 0.9\<rparr>"
  show "map (\<lambda>e. (category e, title e, action_required e)) (detect_lowlights m pm pd) =
     map snd (filter fst
       [(spi m \<le> 0.95,
           (''schedule'', ''Schedule Slippage Detected'', Some ''Schedule recovery plan needed'')),
        (cpi m \<le> 0.95,
           (''cost'', ''Cost Overrun Risk'', Some ''Cost mitigation strategy required'')),
        (sev1_defects m \<ge> 1,
           (''quality'', ''Critical Defects Present'',
            Some ''Immediate defect resolution required'')),
        (risk_score m > 0.6,
           (''risk'', ''High Risk Exposure'', Some ''Risk mitigation plan needed''))])"
    by (rule detect_lowlights_rules)
  show "list_all (\<lambda>e. action_required e \<noteq> None) (detect_lowlights m pm pd)"
    by (rule detect_lowlights_action)
  have "evaluate_schedule_health ?m = RED"
    by (simp add: evaluate_schedule_health_def default_metrics_def thresholds)
  then show "map_sum id fst (calculate_overall_status ?m) = Inr RED"
    by (simp add: calculate_overall_status_unfold status_map_def max_def severity_get_le2)
  have cats: "map category (detect_lowlights ?m None pd) =
      [''schedule'', ''cost'', ''quality'', ''risk'']"
    by (simp add: detect_lowlights_def Let_def triggers default_metrics_def)
  then show "map category (detect_lowlights ?m None pd) =
      [''schedule'', ''cost'', ''quality'', ''risk'']" .
  have "length (map category (detect_lowlights ?m None pd)) = 4"
    by (simp only: cats) simp
  then show "4 \<le> length (detect_lowlights ?m None pd)"
    by simp
qed

text \<open>
  Both bounds are part of their band: spi exactly 0.95 is a schedule lowlight, and a risk
  score just above 0.6 is a risk lowlight.
\<close>

theorem detect_lowlights_rules_in_order_witness:
  "map action_required (detect_lowlights
     (default_metrics\<lparr>spi := 0.95, risk_score := 0.61\<rparr>) None
     \<lparr>pd_id = None, pd_name = None, pd_milestones = None, pd_risks = None, pd_kpis = None\<rparr>) =
   [Some ''Schedule recovery plan needed'', Some ''Risk mitigation plan needed'']"
proof -
  let ?m = "default_metrics\<lparr>spi := 0.95, risk_score := 0.61\<rparr>"
  let ?pd = "\<lparr>pd_id = None, pd_name = None, pd_milestones = None, pd_risks = None,
        pd_kpis = None\<rparr>"
  have "map action_required (detect_lowlights ?m None ?pd) =
        map (\<lambda>t. snd (snd t))
          (map (\<lambda>e. (category e, title e, action_required e)) (detect_lowlights ?m None ?pd))"
    by (simp add: comp_def)
  also have "\<dots> = [Some ''Schedule recovery plan needed'', Some ''Risk mitigation plan needed'']"
    using detect_lowlights_rules_in_order [of ?m None ?pd]
    by (simp add: default_metrics_def)
  finally show ?thesis .
qed

section \<open>Properties of the confidence score\<close>

text \<open>
  C5. The confidence score is the number of the five flags spi \<noteq> 1.0, cpi \<noteq> 1.0,
  quality_score \<noteq> 1.0, risk_score \<noteq> 0.0, milestone_completion_rate \<noteq> 1.0 that hold,
  divided by 5. It lies between 0 and 1, and a snapshot that deviates wherever another one
  does has a confidence at least as high.
\<close>

theorem confidence_counts_deviations:
  "\<exists>st st' c c'.
     calculate_overall_status m = Inr (st, c) \<and>
     calculate_overall_status m' = Inr (st', c') \<and>
     c = real (of_bool (spi m \<noteq> 1) + of_bool (cpi m \<noteq> 1) + of_bool (quality_score m \<noteq> 1) +
               of_bool (risk_score m \<noteq> 0) + of_bool (milestone_completion_rate m \<noteq> 1)) / 5 \<and>
     0 \<le> c \<and> c \<le> 1 \<and>
     ((spi m \<noteq> 1 \<longrightarrow> spi m' \<noteq> 1) \<and> (cpi m \<noteq> 1 \<longrightarrow> cpi m' \<noteq> 1) \<and>
      (quality_score m \<noteq> 1 \<longrightarrow> quality_score m' \<noteq> 1) \<and>
      (risk_score m \<noteq> 0 \<longrightarrow> risk_score m' \<noteq> 0) \<and>
      (milestone_completion_rate m \<noteq> 1 \<longrightarrow> milestone_completion_rate m' \<noteq> 1)
      \<longrightarrow> c \<le> c')"
proof -
  let ?n = "\<lambda>m. of_bool (spi m \<noteq> 1) + of_bool (cpi m \<noteq> 1) + of_bool (quality_score m \<noteq> 1) +
               of_bool (risk_score m \<noteq> 0) + (of_bool (milestone_completion_rate m \<noteq> 1) :: nat)"
  obtain st where st: "calculate_overall_status m = Inr (st, real (?n m) / 5)"
    using calculate_overall_status_eq [of m] by (auto simp: sum_bools_data_points)
  obtain st' where st': "calculate_overall_status m' = Inr (st', real (?n m') / 5)"
    using calculate_overall_status_eq [of m'] by (auto simp: sum_bools_data_points)
  have le5: "?n m \<le> 5"
    by (simp add: of_bool_def)
  have mono: "(spi m \<noteq> 1 \<longrightarrow> spi m' \<noteq> 1) \<and> (cpi m \<noteq> 1 \<longrightarrow> cpi m' \<noteq> 1) \<and>
      (quality_score m \<noteq> 1 \<longrightarrow> quality_score m' \<noteq> 1) \<and>
      (risk_score m \<noteq> 0 \<longrightarrow> risk_score m' \<noteq> 0) \<and>
      (milestone_completion_rate m \<noteq> 1 \<longrightarrow> milestone_completion_rate m' \<noteq> 1)
      \<longrightarrow> ?n m \<le> ?n m'"
    by (intro impI add_mono) (simp_all add: of_bool_def)
  show ?thesis
  proof (intro exI conjI)
    show "calculate_overall_status m = Inr (st, real (?n m) / 5)" by (rule st)
    show "calculate_overall_status m' = Inr (st', real (?n m') / 5)" by (rule st')
    show "real (?n m) / 5 = real (?n m) / 5" by (rule refl)
    show "0 \<le> real (?n m) / 5" by simp
    show "real (?n m) / 5 \<le> 1" using le5 by simp
    show "(spi m \<noteq> 1 \<longrightarrow> spi m' \<noteq> 1) \<and> (cpi m \<noteq> 1 \<longrightarrow> cpi m' \<noteq> 1) \<and>
      (quality_score m \<noteq> 1 \<longrightarrow> quality_score m' \<noteq> 1) \<and>
      (risk_score m \<noteq> 0 \<longrightarrow> risk_score m' \<noteq> 0) \<and>
      (milestone_completion_rate m \<noteq> 1 \<longrightarrow> milestone_completion_rate m' \<noteq> 1)
      \<longrightarrow> real (?n m) / 5 \<le> real (?n m') / 5"
      using mono by (simp add: divide_right_mono)
  qed
qed

text \<open>One deviation gives 1/5; a second deviation on top of it gives 2/5.\<close>

theorem confidence_counts_deviations_witness:
  "map_sum id snd (calculate_overall_status (default_metrics\<lparr>spi := 0.95\<rparr>)) = Inr (1 / 5) \<and>
   map_sum id snd (calculate_overall_status (default_metrics\<lparr>spi := 0.95, risk_score := 0.5\<rparr>))
     = Inr (2 / 5)"
  using confidence_counts_deviations
    [of "default_metrics\<lparr>spi := 0.95\<rparr>" "default_metrics\<lparr>spi := 0.95, risk_score := 0.5\<rparr>"]
    confidence_counts_deviations
    [of "default_metrics\<lparr>spi := 0.95, risk_score := 0.5\<rparr>" "default_metrics"]
  by (auto simp: default_metrics_def)

section \<open>Properties of the comparator\<close>

text \<open>
  Records before the first failure, each without a date or with a naive one, are filtered
  by the closed interval from \<open>start\<close> to \<open>finish\<close>, in their order.
\<close>

lemma filter_loop_append:
  assumes "\<forall>x\<in>set pre. date x = None \<or> (\<exists>d t. date x = Some d \<and> fromisoformat d = Some (Naive t))"
  shows "filter_loop fromisoformat start finish (pre @ rest) filtered =
     filter_loop fromisoformat start finish rest
       (filtered @
        filter (\<lambda>x. case date x of None \<Rightarrow> False
                  | Some d \<Rightarrow> (case fromisoformat d of
                                Some (Naive t) \<Rightarrow> start \<le> t \<and> t \<le> finish
                              | _ \<Rightarrow> False)) pre)"
  using assms
proof (induction pre arbitrary: filtered)
  case Nil
  show ?case by simp
next
  case (Cons item pre)
  then have pre: "\<forall>x\<in>set pre. date x = None \<or>
      (\<exists>d t. date x = Some d \<and> fromisoformat d = Some (Naive t))"
    by simp
  from Cons.prems have "date item = None \<or>
      (\<exists>d t. date item = Some d \<and> fromisoformat d = Some (Naive t))"
    by simp
  then show ?case
  proof
    assume "date item = None"
    then show ?thesis by (simp add: Cons.IH [OF pre])
  next
    assume "\<exists>d t. date item = Some d \<and> fromisoformat d = Some (Naive t)"
    then obtain d t where "date item = Some d" "fromisoformat d = Some (Naive t)" by blast
    then show ?thesis by (simp add: Cons.IH [OF pre])
  qed
qed

lemma filter_loop_parsed:
  assumes "\<forall>x\<in>set data. \<forall>d. date x = Some d \<longrightarrow> (\<exists>t. fromisoformat d = Some (Naive t))"
  shows "filter_loop fromisoformat start finish data [] =
     Inr (filter (\<lambda>x. case date x of None \<Rightarrow> False
                  | Some d \<Rightarrow> (case fromisoformat d of
                                Some (Naive t) \<Rightarrow> start \<le> t \<and> t \<le> finish
                              | _ \<Rightarrow> False)) data)"
proof -
  from assms have "\<forall>x\<in>set data. date x = None \<or>
      (\<exists>d t. date x = Some d \<and> fromisoformat d = Some (Naive t))"
    by (metis option.exhaust)
  from filter_loop_append [OF this, of start finish "[]" "[]"] show ?thesis by simp
qed

text \<open>A date that does not parse makes the loop fail, whatever stands before or after it.\<close>

lemma filter_loop_malformed:
  assumes "r \<in> set data" "date r = Some s" "fromisoformat s = None"
  shows "\<exists>e. filter_loop fromisoformat start finish data filtered = Inl e \<and>
             (e = ValueError \<or> e = TypeError)"
  using assms
proof (induction data arbitrary: filtered)
  case Nil
  then show ?case by simp
next
  case (Cons item rest)
  show ?case
  proof (cases "item = r")
    case True
    with Cons.prems show ?thesis by simp
  next
    case False
    with Cons.prems have "r \<in> set rest" by simp
    note IH = Cons.IH [OF this Cons.prems(2,3)]
    show ?thesis
    proof (cases "date item")
      case None
      then show ?thesis using IH by simp
    next
      case (Some d)
      show ?thesis
      proof (cases "fromisoformat d")
        case None
        with Some show ?thesis by simp
      next
        case (Some p)
        with \<open>date item = Some d\<close> show ?thesis
          using IH by (cases p) simp_all
      qed
    qed
  qed
qed

text \<open>A record without a date changes nothing: neither the result nor an error.\<close>

lemma filter_loop_undated:
  "filter_loop fromisoformat start finish data filtered =
   filter_loop fromisoformat start finish (filter (\<lambda>x. date x \<noteq> None) data) filtered"
proof (induction data arbitrary: filtered)
  case Nil
  show ?case by simp
next
  case (Cons item rest)
  show ?case
    by (cases "date item") (simp_all add: Cons.IH split: option.splits sum.splits)
qed

lemma calculate_7day_comparison_filtered:
  assumes "filter_loop fromisoformat (now - timedelta_days 7) now historical_data [] =
      Inr recent"
    and "filter_loop fromisoformat (now - timedelta_days 14) (now - timedelta_days 7)
      historical_data [] = Inr previous"
  shows "calculate_7day_comparison ops fromisoformat now current_data historical_data =
     (case calculate_trends ops recent previous of
        Inl e \<Rightarrow> Inl e
      | Inr t \<Rightarrow>
          Inr \<lparr>current_period =
                 \<lparr>period_start = now - timedelta_days 7,
                  period_end = now,
                  period_metrics = aggregate_metrics ops recent\<rparr>,
               previous_period =
                 \<lparr>period_start = now - timedelta_days 14,
                  period_end = now - timedelta_days 7,
                  period_metrics = aggregate_metrics ops previous\<rparr>,
               comparison_trends = t\<rparr>)"
  using assms by (simp add: calculate_7day_comparison_def filter_period_data_def Let_def)

lemma calculate_7day_comparison_Inl:
  assumes "filter_loop fromisoformat (now - timedelta_days 7) now historical_data [] = Inl e"
  shows "calculate_7day_comparison ops fromisoformat now current_data historical_data = Inl e"
  using assms by (simp add: calculate_7day_comparison_def filter_period_data_def Let_def)

text \<open>What the aggregates of a period do with one of its records.\<close>

lemma aggregate_metrics_member:
  assumes "r \<in> set period_data"
  shows "total_issues (aggregate_metrics ops period_data) =
           dict_get (issues r) 0 +
           sum_list (map (\<lambda>d. dict_get (issues d) 0) (remove1 r period_data))"
    and "avg_spi (aggregate_metrics ops period_data) =
           float_div_count ops
             (float_sum ops (map (\<lambda>d. dict_get (hist_spi d) 1.0) period_data))
             (length period_data)"
    and "avg_cpi (aggregate_metrics ops period_data) =
           float_div_count ops
             (float_sum ops (map (\<lambda>d. dict_get (hist_cpi d) 1.0) period_data))
             (length period_data)"
    and "completion_rate (aggregate_metrics ops period_data) =
           float_div_count ops
             (float_sum ops (map (\<lambda>d. dict_get (completion d) 0) period_data))
             (length period_data)"
proof -
  from assms have ne: "period_data \<noteq> []" by auto
  show "total_issues (aggregate_metrics ops period_data) =
           dict_get (issues r) 0 +
           sum_list (map (\<lambda>d. dict_get (issues d) 0) (remove1 r period_data))"
    using ne sum_list_map_remove1 [OF assms, of "\<lambda>d. dict_get (issues d) 0"]
    by (simp add: aggregate_metrics_def)
  show "avg_spi (aggregate_metrics ops period_data) =
           float_div_count ops
             (float_sum ops (map (\<lambda>d. dict_get (hist_spi d) 1.0) period_data))
             (length period_data)"
    using ne by (simp add: aggregate_metrics_def)
  show "avg_cpi (aggregate_metrics ops period_data) =
           float_div_count ops
             (float_sum ops (map (\<lambda>d. dict_get (hist_cpi d) 1.0) period_data))
             (length period_data)"
    using ne by (simp add: aggregate_metrics_def)
  show "completion_rate (aggregate_metrics ops period_data) =
           float_div_count ops
             (float_sum ops (map (\<lambda>d. dict_get (completion d) 0) period_data))
             (length period_data)"
    using ne by (simp add: aggregate_metrics_def)
qed

lemma calculate_trends_error:
  assumes "calculate_trends ops recent previous = Inl e"
  shows "e = OverflowError"
  using assms
  by (auto simp: calculate_trends_def Let_def split: option.splits if_splits)

text \<open>
  C6. Both windows are closed intervals: the recent window runs from now - 7 days to now,
  the previous one from now - 14 days to now - 7 days. When the dates of the history parse
  to naive datetimes, both periods are filtered without error and a record dated exactly
  now - 7 days is in the recent and in the previous one. The comparator then returns
  unless the quality trend overflows, and in the comparison it returns the record counts in
  both aggregates: each total of issues is the record's issue count plus the sum over the
  other records of the period, and each average is taken over the whole period, the record
  included, in the interpreter's float arithmetic.
\<close>

theorem boundary_record_in_both_windows:
  assumes "\<forall>x\<in>set historical_data. \<forall>d. date x = Some d \<longrightarrow>
             (\<exists>t. fromisoformat d = Some (Naive t))"
    and "r \<in> set historical_data"
    and "date r = Some s"
    and "fromisoformat s = Some (Naive (now - timedelta_days 7))"
  shows "\<exists>recent previous.
     filter_period_data fromisoformat historical_data (now - timedelta_days 7) now =
       Inr recent \<and>
     filter_period_data fromisoformat historical_data
         (now - timedelta_days 14) (now - timedelta_days 7) = Inr previous \<and>
     recent = filter (\<lambda>x. case date x of None \<Rightarrow> False
                        | Some d \<Rightarrow> (case fromisoformat d of
                              Some (Naive t) \<Rightarrow> now - timedelta_days 7 \<le> t \<and> t \<le> now
                            | _ \<Rightarrow> False))
                historical_data \<and>
     previous = filter (\<lambda>x. case date x of None \<Rightarrow> False
                        | Some d \<Rightarrow> (case fromisoformat d of
                              Some (Naive t) \<Rightarrow> now - timedelta_days 14 \<le> t \<and>
                                               t \<le> now - timedelta_days 7
                            | _ \<Rightarrow> False))
                historical_data \<and>
     r \<in> set recent \<and> r \<in> set previous \<and>
     (\<exists>cmp. calculate_7day_comparison ops fromisoformat now current_data historical_data =
             Inr cmp) =
       (\<exists>t. calculate_trends ops recent previous = Inr t) \<and>
     ((\<exists>cmp. calculate_7day_comparison ops fromisoformat now current_data historical_data =
             Inr cmp) \<or>
      calculate_7day_comparison ops fromisoformat now current_data historical_data =
        Inl OverflowError) \<and>
     (\<forall>cmp. calculate_7day_comparison ops fromisoformat now current_data historical_data =
             Inr cmp \<longrightarrow>
        total_issues (period_metrics (current_period cmp)) =
          dict_get (issues r) 0 +
          sum_list (map (\<lambda>d. dict_get (issues d) 0) (remove1 r recent)) \<and>
        total_issues (period_metrics (previous_period cmp)) =
          dict_get (issues r) 0 +
          sum_list (map (\<lambda>d. dict_get (issues d) 0) (remove1 r previous)) \<and>
        avg_spi (period_metrics (current_period cmp)) =
          float_div_count ops
            (float_sum ops (map (\<lambda>d. dict_get (hist_spi d) 1.0) recent)) (length recent) \<and>
        avg_spi (period_metrics (previous_period cmp)) =
          float_div_count ops
            (float_sum ops (map (\<lambda>d. dict_get (hist_spi d) 1.0) previous))
            (length previous) \<and>
        avg_cpi (period_metrics (current_period cmp)) =
          float_div_count ops
            (float_sum ops (map (\<lambda>d. dict_get (hist_cpi d) 1.0) recent)) (length recent) \<and>
        avg_cpi (period_metrics (previous_period cmp)) =
          float_div_count ops
            (float_sum ops (map (\<lambda>d. dict_get (hist_cpi d) 1.0) previous))
            (length previous) \<and>
        completion_rate (period_metrics (current_period cmp)) =
          float_div_count ops
            (float_sum ops (map (\<lambda>d. dict_get (completion d) 0) recent)) (length recent) \<and>
        completion_rate (period_metrics (previous_period cmp)) =
          float_div_count ops
            (float_sum ops (map (\<lambda>d. dict_get (completion d) 0) previous))
            (length previous))"
proof -
  let ?recent = "filter (\<lambda>x. case date x of None \<Rightarrow> False
                        | Some d \<Rightarrow> (case fromisoformat d of
                              Some (Naive t) \<Rightarrow> now - timedelta_days 7 \<le> t \<and> t \<le> now
                            | _ \<Rightarrow> False))
                historical_data"
  let ?previous = "filter (\<lambda>x. case date x of None \<Rightarrow> False
                        | Some d \<Rightarrow> (case fromisoformat d of
                              Some (Naive t) \<Rightarrow> now - timedelta_days 14 \<le> t \<and>
                                               t \<le> now - timedelta_days 7
                            | _ \<Rightarrow> False))
                historical_data"
  let ?calc = "calculate_7day_comparison ops fromisoformat now current_data historical_data"
  have rec: "filter_loop fromisoformat (now - timedelta_days 7) now historical_data [] =
      Inr ?recent"
    by (rule filter_loop_parsed [OF assms(1)])
  have prev: "filter_loop fromisoformat (now - timedelta_days 14) (now - timedelta_days 7)
      historical_data [] = Inr ?previous"
    by (rule filter_loop_parsed [OF assms(1)])
  have days: "timedelta_days 7 \<ge> 0" "timedelta_days 14 \<ge> timedelta_days 7"
    by (simp_all add: timedelta_days_def)
  have in_rec: "r \<in> set ?recent"
    using assms(2,3,4) days by simp
  have in_prev: "r \<in> set ?previous"
    using assms(2,3,4) days by simp
  note calc = calculate_7day_comparison_filtered [OF rec prev, of ops current_data]
  have returns: "(\<exists>cmp. ?calc = Inr cmp) = (\<exists>t. calculate_trends ops ?recent ?previous = Inr t)"
    unfolding calc by (cases "calculate_trends ops ?recent ?previous") simp_all
  have fails: "(\<exists>cmp. ?calc = Inr cmp) \<or> ?calc = Inl OverflowError"
    unfolding calc
    by (cases "calculate_trends ops ?recent ?previous")
       (simp_all add: calculate_trends_error)
  have cur: "period_metrics (current_period cmp) = aggregate_metrics ops ?recent"
    and pre: "period_metrics (previous_period cmp) = aggregate_metrics ops ?previous"
    if "?calc = Inr cmp" for cmp
    using that unfolding calc
    by (cases "calculate_trends ops ?recent ?previous"; auto)+
  show ?thesis
  proof (intro exI conjI allI impI)
    show "filter_period_data fromisoformat historical_data (now - timedelta_days 7) now =
        Inr ?recent"
      by (simp only: filter_period_data_def rec)
    show "filter_period_data fromisoformat historical_data
        (now - timedelta_days 14) (now - timedelta_days 7) = Inr ?previous"
      by (simp only: filter_period_data_def prev)
    show "?recent = ?recent" "?previous = ?previous"
      by (rule refl)+
    show "r \<in> set ?recent" by (rule in_rec)
    show "r \<in> set ?previous" by (rule in_prev)
    show "(\<exists>cmp. ?calc = Inr cmp) = (\<exists>t. calculate_trends ops ?recent ?previous = Inr t)"
      by (rule returns)
    show "(\<exists>cmp. ?calc = Inr cmp) \<or> ?calc = Inl OverflowError"
      by (rule fails)
  next
    fix cmp
    assume c: "?calc = Inr cmp"
    show "total_issues (period_metrics (current_period cmp)) =
          dict_get (issues r) 0 +
          sum_list (map (\<lambda>d. dict_get (issues d) 0) (remove1 r ?recent))"
      unfolding cur [OF c] by (rule aggregate_metrics_member [OF in_rec])
    show "total_issues (period_metrics (previous_period cmp)) =
          dict_get (issues r) 0 +
          sum_list (map (\<lambda>d. dict_get (issues d) 0) (remove1 r ?previous))"
      unfolding pre [OF c] by (rule aggregate_metrics_member [OF in_prev])
    show "avg_spi (period_metrics (current_period cmp)) =
          float_div_count ops
            (float_sum ops (map (\<lambda>d. dict_get (hist_spi d) 1.0) ?recent)) (length ?recent)"
      unfolding cur [OF c] by (rule aggregate_metrics_member [OF in_rec])
    show "avg_spi (period_metrics (previous_period cmp)) =
          float_div_count ops
            (float_sum ops (map (\<lambda>d. dict_get (hist_spi d) 1.0) ?previous))
            (length ?previous)"
      unfolding pre [OF c] by (rule aggregate_metrics_member [OF in_prev])
    show "avg_cpi (period_metrics (current_period cmp)) =
          float_div_count ops
            (float_sum ops (map (\<lambda>d. dict_get (hist_cpi d) 1.0) ?recent)) (length ?recent)"
      unfolding cur [OF c] by (rule aggregate_metrics_member [OF in_rec])
    show "avg_cpi (period_metrics (previous_period cmp)) =
          float_div_count ops
            (float_sum ops (map (\<lambda>d. dict_get (hist_cpi d) 1.0) ?previous))
            (length ?previous)"
      unfolding pre [OF c] by (rule aggregate_metrics_member [OF in_prev])
    show "completion_rate (period_metrics (current_period cmp)) =
          float_div_count ops
            (float_sum ops (map (\<lambda>d. dict_get (completion d) 0) ?recent)) (length ?recent)"
      unfolding cur [OF c] by (rule aggregate_metrics_member [OF in_rec])
    show "completion_rate (period_metrics (previous_period cmp)) =
          float_div_count ops
            (float_sum ops (map (\<lambda>d. dict_get (completion d) 0) ?previous))
            (length ?previous)"
      unfolding pre [OF c] by (rule aggregate_metrics_member [OF in_prev])
  qed
qed

text \<open>
  With now 14 days after the epoch and one record, dated 7 days after it, that counts 3
  issues at spi 0.9: both windows report 3 issues and the average spi 0.9.
\<close>

theorem boundary_record_in_both_windows_witness:
  "map_sum id
     (\<lambda>c. (total_issues (period_metrics (current_period c)),
           total_issues (period_metrics (previous_period c)),
           avg_spi (period_metrics (current_period c)),
           avg_spi (period_metrics (previous_period c))))
     (calculate_7day_comparison exact_ops [''2024-01-08'' \<mapsto> Naive 604800000000]
        1209600000000
        \<lparr>pd_id = None, pd_name = None, pd_milestones = None, pd_risks = None, pd_kpis = None\<rparr>
        [\<lparr>date = Some ''2024-01-08'', hist_spi = Some 0.9, hist_cpi = None, issues = Some 3,
          completion = None\<rparr>]) = Inr (3, 3, 0.9, 0.9)"
proof -
  let ?P = "[''2024-01-08'' \<mapsto> Naive 604800000000]"
  let ?R = "\<lparr>date = Some ''2024-01-08'', hist_spi = Some 0.9, hist_cpi = None, issues = Some 3,
          completion = None\<rparr>"
  let ?pd = "\<lparr>pd_id = None, pd_name = None, pd_milestones = None, pd_risks = None,
          pd_kpis = None\<rparr>"
  let ?calc = "calculate_7day_comparison exact_ops ?P 1209600000000 ?pd [?R]"
  have h1: "\<forall>x\<in>set [?R]. \<forall>d. date x = Some d \<longrightarrow> (\<exists>t. ?P d = Some (Naive t))"
    by simp
  have h2: "?R \<in> set [?R]" by simp
  have h3: "date ?R = Some ''2024-01-08''" by simp
  have h4: "?P ''2024-01-08'' = Some (Naive (1209600000000 - timedelta_days 7))"
    by (simp add: timedelta_days_def)
  from boundary_record_in_both_windows [OF h1 h2 h3 h4, of exact_ops ?pd]
  obtain recent previous where
    r: "recent = filter (\<lambda>x. case date x of None \<Rightarrow> False
                        | Some d \<Rightarrow> (case ?P d of
                              Some (Naive t) \<Rightarrow> 1209600000000 - timedelta_days 7 \<le> t \<and>
                                               t \<le> 1209600000000
                            | _ \<Rightarrow> False)) [?R]"
    and p: "previous = filter (\<lambda>x. case date x of None \<Rightarrow> False
                        | Some d \<Rightarrow> (case ?P d of
                              Some (Naive t) \<Rightarrow> 1209600000000 - timedelta_days 14 \<le> t \<and>
                                               t \<le> 1209600000000 - timedelta_days 7
                            | _ \<Rightarrow> False)) [?R]"
    and ret: "(\<exists>cmp. ?calc = Inr cmp) = (\<exists>t. calculate_trends exact_ops recent previous = Inr t)"
    and agg: "\<forall>cmp. ?calc = Inr cmp \<longrightarrow>
        total_issues (period_metrics (current_period cmp)) =
          dict_get (issues ?R) 0 +
          sum_list (map (\<lambda>d. dict_get (issues d) 0) (remove1 ?R recent)) \<and>
        total_issues (period_metrics (previous_period cmp)) =
          dict_get (issues ?R) 0 +
          sum_list (map (\<lambda>d. dict_get (issues d) 0) (remove1 ?R previous)) \<and>
        avg_spi (period_metrics (current_period cmp)) =
          float_div_count exact_ops
            (float_sum exact_ops (map (\<lambda>d. dict_get (hist_spi d) 1.0) recent))
            (length recent) \<and>
        avg_spi (period_metrics (previous_period cmp)) =
          float_div_count exact_ops
            (float_sum exact_ops (map (\<lambda>d. dict_get (hist_spi d) 1.0) previous))
            (length previous)"
    by blast
  have recent: "recent = [?R]" using r by (simp add: timedelta_days_def)
  have previous: "previous = [?R]" using p by (simp add: timedelta_days_def)
  have "\<exists>t. calculate_trends exact_ops recent previous = Inr t"
    unfolding recent previous
    by (simp add: calculate_trends_def Let_def aggregate_metrics_def exact_ops_def dict_get_def)
  with ret obtain cmp where cmp: "?calc = Inr cmp" by blast
  from agg cmp have
    "total_issues (period_metrics (current_period cmp)) = 3"
    "total_issues (period_metrics (previous_period cmp)) = 3"
    "avg_spi (period_metrics (current_period cmp)) = 0.9"
    "avg_spi (period_metrics (previous_period cmp)) = 0.9"
    unfolding recent previous by (simp_all add: dict_get_def exact_ops_def)
  with cmp show ?thesis by simp
qed

section \<open>Properties of the engine\<close>

lemma evaluate_project_fields:
  assumes "evaluate_project ops fromisoformat set_iter now stamp pd h = Inr ps"
  shows "extract_metrics ops pd = Inr (ps_health_metrics ps) \<and>
         ps_highlights ps = detect_highlights (ps_health_metrics ps) None pd \<and>
         ps_lowlights ps = detect_lowlights (ps_health_metrics ps) None pd"
  using assms
  by (auto simp: evaluate_project_def Let_def split: sum.splits prod.splits if_splits)

lemma evaluate_project_no_history:
  assumes "h = None \<or> h = Some []"
    and "extract_metrics ops pd = Inr m"
  shows "\<exists>st c. calculate_overall_status m = Inr (st, c) \<and>
     evaluate_project ops fromisoformat set_iter now stamp pd h =
       Inr \<lparr>ps_project_id = dict_get (pd_id pd) ''unknown'',
            ps_project_name = dict_get (pd_name pd) ''Unknown Project'',
            ps_overall_status = st,
            ps_trend = FLAT,
            ps_health_metrics = m,
            ps_highlights = detect_highlights m None pd,
            ps_lowlights = detect_lowlights m None pd,
            ps_confidence_score = c,
            ps_evaluation_date = stamp,
            ps_comparison_period = None\<rparr>"
proof -
  obtain st c where "calculate_overall_status m = Inr (st, c)"
    using calculate_overall_status_eq [of m] by blast
  with assms show ?thesis
    by (auto simp: evaluate_project_def Let_def)
qed

lemma evaluate_project_no_history_result:
  assumes "h = None \<or> h = Some []"
    and "evaluate_project ops fromisoformat set_iter now stamp pd h = Inr ps"
  shows "ps_comparison_period ps = None \<and> ps_trend ps = FLAT"
  using assms
  by (auto simp: evaluate_project_def Let_def split: sum.splits prod.splits)

lemma evaluate_project_raises:
  assumes "data \<noteq> []"
    and "extract_metrics ops pd = Inr m"
    and "calculate_7day_comparison ops fromisoformat now pd data = Inl e"
  shows "evaluate_project ops fromisoformat set_iter now stamp pd (Some data) = Inl e"
proof -
  obtain st c where "calculate_overall_status m = Inr (st, c)"
    using calculate_overall_status_eq [of m] by blast
  with assms show ?thesis
    by (simp add: evaluate_project_def Let_def dict_get_def)
qed

text \<open>
  C9, amended. When some record of the history has a date that does not parse, the
  comparator fails, with \<^verbatim>\<open>ValueError\<close> or with \<^verbatim>\<open>TypeError\<close>, and nothing catches the error.
  It is the parse error \<^verbatim>\<open>ValueError\<close>, in the comparator and in \<^verbatim>\<open>evaluate_project\<close> (once
  the metrics are extracted), when every record before the first such date has no date or
  a naive one; where an offset-aware date comes first, its comparison with the naive clock
  raises \<^verbatim>\<open>TypeError\<close>. Records without a date are dropped silently: removing them changes
  neither the filtered periods nor the comparison.
\<close>

theorem malformed_date_raises:
  "(r \<in> set historical_data \<and> date r = Some s \<and> fromisoformat s = None \<longrightarrow>
      (\<exists>e. calculate_7day_comparison ops fromisoformat now current_data historical_data =
             Inl e \<and> (e = ValueError \<or> e = TypeError))) \<and>
   (historical_data = pre @ r # post \<and> date r = Some s \<and>
    (\<forall>x\<in>set pre. date x = None \<or>
         (\<exists>d t. date x = Some d \<and> fromisoformat d = Some (Naive t))) \<longrightarrow>
      (fromisoformat s = None \<longrightarrow>
         calculate_7day_comparison ops fromisoformat now current_data historical_data =
           Inl ValueError \<and>
         (\<forall>m. extract_metrics ops current_data = Inr m \<longrightarrow>
            evaluate_project ops fromisoformat set_iter now stamp current_data
              (Some historical_data) = Inl ValueError)) \<and>
      (\<forall>t. fromisoformat s = Some (Aware t) \<longrightarrow>
         calculate_7day_comparison ops fromisoformat now current_data historical_data =
           Inl TypeError)) \<and>
   filter_period_data fromisoformat historical_data start finish =
     filter_period_data fromisoformat (filter (\<lambda>x. date x \<noteq> None) historical_data)
       start finish \<and>
   calculate_7day_comparison ops fromisoformat now current_data historical_data =
     calculate_7day_comparison ops fromisoformat now current_data
       (filter (\<lambda>x. date x \<noteq> None) historical_data)"
proof (intro conjI impI allI)
  assume a: "r \<in> set historical_data \<and> date r = Some s \<and> fromisoformat s = None"
  then obtain e where
    "filter_loop fromisoformat (now - timedelta_days 7) now historical_data [] = Inl e"
    and e: "e = ValueError \<or> e = TypeError"
    using filter_loop_malformed [of r historical_data s fromisoformat] by blast
  then have "calculate_7day_comparison ops fromisoformat now current_data historical_data =
      Inl e"
    by (simp add: calculate_7day_comparison_Inl)
  with e show "\<exists>e. calculate_7day_comparison ops fromisoformat now current_data
      historical_data = Inl e \<and> (e = ValueError \<or> e = TypeError)"
    by blast
next
  assume a: "historical_data = pre @ r # post \<and> date r = Some s \<and>
    (\<forall>x\<in>set pre. date x = None \<or>
         (\<exists>d t. date x = Some d \<and> fromisoformat d = Some (Naive t)))"
    and none: "fromisoformat s = None"
  from a have pre: "\<forall>x\<in>set pre. date x = None \<or>
         (\<exists>d t. date x = Some d \<and> fromisoformat d = Some (Naive t))"
    by blast
  have "filter_loop fromisoformat (now - timedelta_days 7) now historical_data [] =
      Inl ValueError"
    using a none by (simp add: filter_loop_append [OF pre])
  then show c: "calculate_7day_comparison ops fromisoformat now current_data
      historical_data = Inl ValueError"
    by (rule calculate_7day_comparison_Inl)
  fix m
  assume "extract_metrics ops current_data = Inr m"
  moreover from a have "historical_data \<noteq> []" by simp
  ultimately show "evaluate_project ops fromisoformat set_iter now stamp current_data
      (Some historical_data) = Inl ValueError"
    using c by (intro evaluate_project_raises [of _ _ _ m])
next
  fix t
  assume a: "historical_data = pre @ r # post \<and> date r = Some s \<and>
    (\<forall>x\<in>set pre. date x = None \<or>
         (\<exists>d t. date x = Some d \<and> fromisoformat d = Some (Naive t)))"
    and aware: "fromisoformat s = Some (Aware t)"
  from a have pre: "\<forall>x\<in>set pre. date x = None \<or>
         (\<exists>d t. date x = Some d \<and> fromisoformat d = Some (Naive t))"
    by blast
  have "filter_loop fromisoformat (now - timedelta_days 7) now historical_data [] =
      Inl TypeError"
    using a aware by (simp add: filter_loop_append [OF pre])
  then show "calculate_7day_comparison ops fromisoformat now current_data
      historical_data = Inl TypeError"
    by (rule calculate_7day_comparison_Inl)
next
  show "filter_period_data fromisoformat historical_data start finish =
     filter_period_data fromisoformat (filter (\<lambda>x. date x \<noteq> None) historical_data)
       start finish"
    unfolding filter_period_data_def by (rule filter_loop_undated)
next
  show "calculate_7day_comparison ops fromisoformat now current_data historical_data =
     calculate_7day_comparison ops fromisoformat now current_data
       (filter (\<lambda>x. date x \<noteq> None) historical_data)"
    unfolding calculate_7day_comparison_def filter_period_data_def Let_def
    by (simp only: filter_loop_undated [symmetric])
qed

lemma extract_metrics_no_kpis:
  "\<exists>m. extract_metrics exact_ops
     \<lparr>pd_id = None, pd_name = None, pd_milestones = None, pd_risks = None, pd_kpis = None\<rparr> =
     Inr m"
  by (simp add: extract_metrics_def Let_def dict_get_def empty_kpi_def exact_ops_def)

text \<open>
  A history of an undated record and a record dated \<^verbatim>\<open>not-a-date\<close> raises the parse error,
  in the comparator and in the engine.
\<close>

theorem malformed_date_raises_witness:
  "calculate_7day_comparison exact_ops [''2024-01-08'' \<mapsto> Naive 604800000000] 1209600000000
     \<lparr>pd_id = None, pd_name = None, pd_milestones = None, pd_risks = None, pd_kpis = None\<rparr>
     [\<lparr>date = None, hist_spi = None, hist_cpi = None, issues = Some 5, completion = None\<rparr>,
      \<lparr>date = Some ''not-a-date'', hist_spi = None, hist_cpi = None, issues = Some 3,
        completion = None\<rparr>] = Inl ValueError \<and>
   evaluate_project exact_ops [''2024-01-08'' \<mapsto> Naive 604800000000] remdups
     1209600000000 1209600000000
     \<lparr>pd_id = None, pd_name = None, pd_milestones = None, pd_risks = None, pd_kpis = None\<rparr>
     (Some
      [\<lparr>date = None, hist_spi = None, hist_cpi = None, issues = Some 5, completion = None\<rparr>,
       \<lparr>date = Some ''not-a-date'', hist_spi = None, hist_cpi = None, issues = Some 3,
         completion = None\<rparr>]) = Inl ValueError"
proof -
  let ?P = "[''2024-01-08'' \<mapsto> Naive 604800000000]"
  let ?pd = "\<lparr>pd_id = None, pd_name = None, pd_milestones = None, pd_risks = None,
      pd_kpis = None\<rparr>"
  let ?R0 = "\<lparr>date = None, hist_spi = None, hist_cpi = None, issues = Some 5,
      completion = None\<rparr>"
  let ?Rbad = "\<lparr>date = Some ''not-a-date'', hist_spi = None, hist_cpi = None, issues = Some 3,
      completion = None\<rparr>"
  obtain m where m: "extract_metrics exact_ops ?pd = Inr m"
    using extract_metrics_no_kpis by blast
  have hyp: "[?R0, ?Rbad] = [?R0] @ ?Rbad # [] \<and> date ?Rbad = Some ''not-a-date'' \<and>
      (\<forall>x\<in>set [?R0]. date x = None \<or> (\<exists>d t. date x = Some d \<and> ?P d = Some (Naive t)))"
    by simp
  have none: "?P ''not-a-date'' = None" by simp
  from malformed_date_raises
    [where r = ?Rbad and historical_data = "[?R0, ?Rbad]" and s = "''not-a-date''"
      and fromisoformat = ?P and pre = "[?R0]" and post = "[]" and ops = exact_ops
      and now = 1209600000000 and current_data = ?pd and set_iter = remdups
      and stamp = 1209600000000]
    hyp none m
  show ?thesis by blast
qed

text \<open>
  C9, as stated, fails when an offset-aware date stands before the malformed one: the
  history holds a date that does not parse, and the comparator fails with \<^verbatim>\<open>TypeError\<close>,
  not with the parse error.
\<close>

theorem malformed_date_raises_counterexample:
  "calculate_7day_comparison exact_ops
     [''2024-01-08T00:00:00+00:00'' \<mapsto> Aware 604800000000] 1209600000000
     \<lparr>pd_id = None, pd_name = None, pd_milestones = None, pd_risks = None, pd_kpis = None\<rparr>
     [\<lparr>date = Some ''2024-01-08T00:00:00+00:00'', hist_spi = None, hist_cpi = None,
        issues = Some 5, completion = None\<rparr>,
      \<lparr>date = Some ''not-a-date'', hist_spi = None, hist_cpi = None, issues = Some 3,
        completion = None\<rparr>] = Inl TypeError"
  by (simp add: calculate_7day_comparison_def filter_period_data_def Let_def)

lemma aggregate_metrics_Nil:
  "aggregate_metrics ops [] =
     \<lparr>avg_spi = 1.0, avg_cpi = 1.0, total_issues = 0, completion_rate = 0.0\<rparr>"
  by (simp add: aggregate_metrics_def)

lemma calculate_trends_Nil:
  assumes "float_mul ops 1.0 1.02 = 1.02" "float_mul ops 1.0 0.98 = 0.98"
    and "int_mul_float ops 0 0.9 = Some 0" "int_mul_float ops 0 1.1 = Some 0"
  shows "calculate_trends ops [] [] = Inr \<lparr>schedule = FLAT, cost = FLAT, quality = FLAT\<rparr>"
  using assms by (simp add: calculate_trends_def aggregate_metrics_Nil Let_def)

text \<open>
  C7, amended. Called on an empty history, \<^verbatim>\<open>calculate_7day_comparison\<close> reports the
  neutral defaults (average spi 1.0, average cpi 1.0, 0 issues, completion rate 0.0) for
  both windows; and it returns, with the trend flat for schedule, cost and quality, in a
  float arithmetic where 1.0 * 1.02 = 1.02, 1.0 * 0.98 = 0.98, 0 * 0.9 = 0 and
  0 * 1.1 = 0, as in the interpreter's. \<^verbatim>\<open>evaluate_project\<close> does not call it for an empty
  or absent history: every result it returns has an empty comparison and the overall trend
  flat, and it returns whenever the metrics are extracted.
\<close>

theorem empty_history_neutral_defaults:
  "(float_mul ops 1.0 1.02 = 1.02 \<and> float_mul ops 1.0 0.98 = 0.98 \<and>
    int_mul_float ops 0 0.9 = Some 0 \<and> int_mul_float ops 0 1.1 = Some 0 \<longrightarrow>
      calculate_7day_comparison ops fromisoformat now current_data [] =
        Inr \<lparr>current_period =
               \<lparr>period_start = now - timedelta_days 7,
                period_end = now,
                period_metrics =
                  \<lparr>avg_spi = 1.0, avg_cpi = 1.0, total_issues = 0, completion_rate = 0.0\<rparr>\<rparr>,
             previous_period =
               \<lparr>period_start = now - timedelta_days 14,
                period_end = now - timedelta_days 7,
                period_metrics =
                  \<lparr>avg_spi = 1.0, avg_cpi = 1.0, total_issues = 0, completion_rate = 0.0\<rparr>\<rparr>,
             comparison_trends = \<lparr>schedule = FLAT, cost = FLAT, quality = FLAT\<rparr>\<rparr>) \<and>
   (\<forall>cmp. calculate_7day_comparison ops fromisoformat now current_data [] = Inr cmp \<longrightarrow>
      period_metrics (current_period cmp) =
        \<lparr>avg_spi = 1.0, avg_cpi = 1.0, total_issues = 0, completion_rate = 0.0\<rparr> \<and>
      period_metrics (previous_period cmp) =
        \<lparr>avg_spi = 1.0, avg_cpi = 1.0, total_issues = 0, completion_rate = 0.0\<rparr>) \<and>
   (\<forall>ps. (h = None \<or> h = Some []) \<and>
         evaluate_project ops fromisoformat set_iter now stamp current_data h = Inr ps \<longrightarrow>
      ps_comparison_period ps = None \<and> ps_trend ps = FLAT) \<and>
   ((h = None \<or> h = Some []) \<and> (\<exists>m. extract_metrics ops current_data = Inr m) \<longrightarrow>
      (\<exists>ps. evaluate_project ops fromisoformat set_iter now stamp current_data h = Inr ps))"
proof (intro conjI impI allI)
  have f: "filter_loop fromisoformat (now - timedelta_days 7) now [] [] = Inr []"
    "filter_loop fromisoformat (now - timedelta_days 14) (now - timedelta_days 7) [] [] =
      Inr []"
    by simp_all
  note calc = calculate_7day_comparison_filtered [OF f, of ops current_data]
  {
    assume "float_mul ops 1.0 1.02 = 1.02 \<and> float_mul ops 1.0 0.98 = 0.98 \<and>
      int_mul_float ops 0 0.9 = Some 0 \<and> int_mul_float ops 0 1.1 = Some 0"
    then have "calculate_trends ops [] [] =
        Inr \<lparr>schedule = FLAT, cost = FLAT, quality = FLAT\<rparr>"
      by (intro calculate_trends_Nil) simp_all
    then show "calculate_7day_comparison ops fromisoformat now current_data [] =
        Inr \<lparr>current_period =
               \<lparr>period_start = now - timedelta_days 7,
                period_end = now,
                period_metrics =
                  \<lparr>avg_spi = 1.0, avg_cpi = 1.0, total_issues = 0, completion_rate = 0.0\<rparr>\<rparr>,
             previous_period =
               \<lparr>period_start = now - timedelta_days 14,
                period_end = now - timedelta_days 7,
                period_metrics =
                  \<lparr>avg_spi = 1.0, avg_cpi = 1.0, total_issues = 0, completion_rate = 0.0\<rparr>\<rparr>,
             comparison_trends = \<lparr>schedule = FLAT, cost = FLAT, quality = FLAT\<rparr>\<rparr>"
      unfolding calc by (simp add: aggregate_metrics_Nil)
  }
  {
    fix cmp
    assume "calculate_7day_comparison ops fromisoformat now current_data [] = Inr cmp"
    then have "period_metrics (current_period cmp) = aggregate_metrics ops [] \<and>
        period_metrics (previous_period cmp) = aggregate_metrics ops []"
      unfolding calc by (cases "calculate_trends ops [] []") auto
    then show "period_metrics (current_period cmp) =
        \<lparr>avg_spi = 1.0, avg_cpi = 1.0, total_issues = 0, completion_rate = 0.0\<rparr>"
      and "period_metrics (previous_period cmp) =
        \<lparr>avg_spi = 1.0, avg_cpi = 1.0, total_issues = 0, completion_rate = 0.0\<rparr>"
      by (simp_all add: aggregate_metrics_Nil)
  }
  {
    fix ps
    assume "(h = None \<or> h = Some []) \<and>
      evaluate_project ops fromisoformat set_iter now stamp current_data h = Inr ps"
    then have "h = None \<or> h = Some []"
      "evaluate_project ops fromisoformat set_iter now stamp current_data h = Inr ps"
      by simp_all
    then have "ps_comparison_period ps = None \<and> ps_trend ps = FLAT"
      by (rule evaluate_project_no_history_result)
    then show "ps_comparison_period ps = None" "ps_trend ps = FLAT" by simp_all
  }
  {
    assume "(h = None \<or> h = Some []) \<and> (\<exists>m. extract_metrics ops current_data = Inr m)"
    then obtain m where "h = None \<or> h = Some []" "extract_metrics ops current_data = Inr m"
      by blast
    from evaluate_project_no_history [OF this, of fromisoformat set_iter now stamp]
    show "\<exists>ps. evaluate_project ops fromisoformat set_iter now stamp current_data h = Inr ps"
      by blast
  }
qed

text \<open>The comparison of an empty history at a concrete clock reading.\<close>

theorem empty_history_neutral_defaults_witness:
  "map_sum id (\<lambda>c. (period_metrics (current_period c), comparison_trends c))
     (calculate_7day_comparison exact_ops [''2024-01-08'' \<mapsto> Naive 604800000000]
       1209600000000
       \<lparr>pd_id = None, pd_name = None, pd_milestones = None, pd_risks = None, pd_kpis = None\<rparr>
       []) =
   Inr (\<lparr>avg_spi = 1, avg_cpi = 1, total_issues = 0, completion_rate = 0\<rparr>,
        \<lparr>schedule = FLAT, cost = FLAT, quality = FLAT\<rparr>)"
proof -
  have "float_mul exact_ops 1.0 1.02 = 1.02 \<and> float_mul exact_ops 1.0 0.98 = 0.98 \<and>
    int_mul_float exact_ops 0 0.9 = Some 0 \<and> int_mul_float exact_ops 0 1.1 = Some 0"
    by (simp add: exact_ops_def)
  with empty_history_neutral_defaults
    [where ops = exact_ops and fromisoformat = "[''2024-01-08'' \<mapsto> Naive 604800000000]"
      and now = 1209600000000 and current_data =
      "\<lparr>pd_id = None, pd_name = None, pd_milestones = None, pd_risks = None, pd_kpis = None\<rparr>"]
  show ?thesis by simp
qed

text \<open>
  C7, as stated, fails for the comparison that \<^verbatim>\<open>evaluate_project\<close> reports: an empty
  history is falsy, the comparator is not called, and \<^verbatim>\<open>comparison_period\<close> is the empty
  dictionary, with no aggregates and no per-dimension trends.
\<close>

theorem empty_history_skips_comparator_counterexample:
  "map_sum id ps_comparison_period
     (evaluate_project exact_ops Map.empty remdups 1209600000000 1209600000000
        \<lparr>pd_id = None, pd_name = None, pd_milestones = None, pd_risks = None, pd_kpis = None\<rparr>
        (Some [])) = Inr None"
proof -
  obtain m where "extract_metrics exact_ops
     \<lparr>pd_id = None, pd_name = None, pd_milestones = None, pd_risks = None, pd_kpis = None\<rparr> =
     Inr m"
    using extract_metrics_no_kpis by blast
  from evaluate_project_no_history [where h = "Some []", OF _ this,
      of Map.empty remdups 1209600000000 1209600000000]
  show ?thesis by auto
qed

section \<open>Properties of the metrics extraction\<close>

text \<open>\<open>contains\<close> is the substring test.\<close>

lemma take_length_eq_iff: "(take (length xs) ys = xs) = (\<exists>q. ys = xs @ q)"
proof
  assume "take (length xs) ys = xs"
  then have "ys = xs @ drop (length xs) ys"
    by (metis append_take_drop_id)
  then show "\<exists>q. ys = xs @ q" ..
next
  assume "\<exists>q. ys = xs @ q"
  then show "take (length xs) ys = xs" by auto
qed

lemma contains_iff: "contains sub s = (\<exists>p q. s = p @ sub @ q)"
proof (induction s)
  case Nil
  show ?case by auto
next
  case (Cons c cs)
  have "(\<exists>p q. c # cs = p @ sub @ q) =
        ((\<exists>q. c # cs = sub @ q) \<or> (\<exists>p q. cs = p @ sub @ q))"
  proof
    assume "\<exists>p q. c # cs = p @ sub @ q"
    then obtain p q where pq: "c # cs = p @ sub @ q" by blast
    show "(\<exists>q. c # cs = sub @ q) \<or> (\<exists>p q. cs = p @ sub @ q)"
    proof (cases p)
      case Nil
      with pq show ?thesis by auto
    next
      case (Cons a p')
      with pq have "cs = p' @ sub @ q" by simp
      then show ?thesis by blast
    qed
  next
    assume "(\<exists>q. c # cs = sub @ q) \<or> (\<exists>p q. cs = p @ sub @ q)"
    then show "\<exists>p q. c # cs = p @ sub @ q"
    proof
      assume "\<exists>q. c # cs = sub @ q"
      then obtain q where "c # cs = [] @ sub @ q" by auto
      then show ?thesis by blast
    next
      assume "\<exists>p q. cs = p @ sub @ q"
      then obtain p q where "c # cs = (c # p) @ sub @ q" by auto
      then show ?thesis by blast
    qed
  qed
  with Cons.IH show ?case
    by (simp add: take_length_eq_iff del: take_Suc_Cons)
qed

lemma issue_count_eq:
  "dict_get (kpi_value
      (dict_get (find (\<lambda>k. contains ''issue'' (lower (dict_get (kpi_metric k) []))) ks)
         empty_kpi)) 0 =
   (case find (\<lambda>k. \<exists>p q. lower (dict_get (kpi_metric k) []) = p @ ''issue'' @ q) ks of
      None \<Rightarrow> 0
    | Some k \<Rightarrow> dict_get (kpi_value k) 0)"
proof -
  let ?P = "\<lambda>k. contains ''issue'' (lower (dict_get (kpi_metric k) []))"
  have P: "?P = (\<lambda>k. \<exists>p q. lower (dict_get (kpi_metric k) []) = p @ ''issue'' @ q)"
    by (simp only: contains_iff)
  have "dict_get (kpi_value (dict_get (find ?P ks) empty_kpi)) 0 =
      (case find ?P ks of None \<Rightarrow> 0 | Some k \<Rightarrow> dict_get (kpi_value k) 0)"
    by (cases "find ?P ks") (simp_all add: dict_get_def empty_kpi_def)
  then show ?thesis by (simp only: P)
qed

text \<open>The extraction, with the issue count named.\<close>

lemma extract_metrics_unfold:
  assumes "ic =
     (case find (\<lambda>k. \<exists>p q. lower (dict_get (kpi_metric k) []) = p @ ''issue'' @ q)
             (dict_get (pd_kpis pd) []) of
        None \<Rightarrow> 0
      | Some k \<Rightarrow> dict_get (kpi_value k) 0)"
  shows "extract_metrics ops pd =
     (if ic < 100
      then (case int_truediv ops ic 100 of
              None \<Rightarrow> Inl OverflowError
            | Some q \<Rightarrow>
                Inr \<lparr>spi = (if \<exists>x\<in>set (dict_get (pd_milestones pd) []).
                                 status x = Some ''at-risk'' then 0.95 else 1.02),
                     cpi = 0.98,
                     quality_score = float_sub ops 1.0 q,
                     risk_score =
                       min (count_mul_float ops
                              (length (filter (\<lambda>r. severity r = Some ''high'')
                                         (dict_get (pd_risks pd) []))) 0.3) 1.0,
                     defect_count = ic,
                     sev1_defects = max 0 (ic div 10),
                     sev2_defects = max 0 (ic div 5 - max 0 (ic div 10)),
                     milestone_completion_rate =
                       (if dict_get (pd_milestones pd) [] = [] then count_truediv ops 0 1
                        else count_truediv ops
                               (length (filter (\<lambda>x. status x = Some ''completed'')
                                          (dict_get (pd_milestones pd) [])))
                               (length (dict_get (pd_milestones pd) []))),
                     scope_change_percentage = 0.0,
                     resource_utilization = 1.0,
                     stakeholder_satisfaction = 0.85\<rparr>)
      else Inr \<lparr>spi = (if \<exists>x\<in>set (dict_get (pd_milestones pd) []).
                             status x = Some ''at-risk'' then 0.95 else 1.02),
                 cpi = 0.98,
                 quality_score = 0.0,
                 risk_score =
                   min (count_mul_float ops
                          (length (filter (\<lambda>r. severity r = Some ''high'')
                                     (dict_get (pd_risks pd) []))) 0.3) 1.0,
                 defect_count = ic,
                 sev1_defects = max 0 (ic div 10),
                 sev2_defects = max 0 (ic div 5 - max 0 (ic div 10)),
                 milestone_completion_rate =
                   (if dict_get (pd_milestones pd) [] = [] then count_truediv ops 0 1
                    else count_truediv ops
                           (length (filter (\<lambda>x. status x = Some ''completed'')
                                      (dict_get (pd_milestones pd) [])))
                           (length (dict_get (pd_milestones pd) []))),
                 scope_change_percentage = 0.0,
                 resource_utilization = 1.0,
                 stakeholder_satisfaction = 0.85\<rparr>)"
proof -
  have ic: "dict_get (kpi_value
      (dict_get (find (\<lambda>k. contains ''issue'' (lower (dict_get (kpi_metric k) [])))
                   (dict_get (pd_kpis pd) [])) empty_kpi)) 0 = ic"
    unfolding assms by (rule issue_count_eq)
  have rate: "(if dict_get (pd_milestones pd) [] \<noteq> []
               then length (dict_get (pd_milestones pd) []) else 1) > 0"
    by simp
  show ?thesis
    unfolding extract_metrics_def Let_def ic list_ex_iff
    by (cases "dict_get (pd_milestones pd) [] = []") (simp_all split: option.splits)
qed

text \<open>
  C8, amended. The issue count is the value of the first KPI whose lower-cased metric name
  contains \<^verbatim>\<open>issue\<close>, 0 when there is none or it has no value. \<^verbatim>\<open>_extract_metrics\<close> returns
  unless issue_count < 100 and issue_count / 100 overflows a float, and then it raises
  \<^verbatim>\<open>OverflowError\<close>. When it returns: spi is 0.95 if some milestone has status at-risk, else
  1.02; cpi is 0.98; the risk score is min(n * 0.3, 1.0) for the number n of risks of
  severity high; sev1 = max(0, issue_count // 10), which is issue_count // 10 when the
  count is not negative; sev2 = max(0, issue_count // 5 - sev1); the quality score is
  1.0 - issue_count / 100 when issue_count < 100, else 0.0; and the milestone completion
  rate is completed / len(milestones), 0 / 1 for an empty list: each product, quotient and
  difference as the interpreter's float arithmetic computes it.
\<close>

theorem extract_metrics_formulas:
  "let ms = dict_get (pd_milestones pd) [];
       rs = dict_get (pd_risks pd) [];
       ks = dict_get (pd_kpis pd) [];
       issue_count =
         (case find (\<lambda>k. \<exists>p q. lower (dict_get (kpi_metric k) []) = p @ ''issue'' @ q) ks of
            None \<Rightarrow> 0
          | Some k \<Rightarrow> dict_get (kpi_value k) 0)
   in ((\<exists>m. extract_metrics ops pd = Inr m) =
         (issue_count < 100 \<longrightarrow> int_truediv ops issue_count 100 \<noteq> None)) \<and>
      ((\<exists>m. extract_metrics ops pd = Inr m) \<or> extract_metrics ops pd = Inl OverflowError) \<and>
      (\<forall>m. extract_metrics ops pd = Inr m \<longrightarrow>
         spi m = (if \<exists>x\<in>set ms. status x = Some ''at-risk'' then 0.95 else 1.02) \<and>
         cpi m = 0.98 \<and>
         risk_score m =
           min (count_mul_float ops
                  (length (filter (\<lambda>r. severity r = Some ''high'') rs)) 0.3) 1.0 \<and>
         defect_count m = issue_count \<and>
         sev1_defects m = max 0 (issue_count div 10) \<and>
         sev2_defects m = max 0 (issue_count div 5 - sev1_defects m) \<and>
         (if issue_count < 100
          then \<exists>q. int_truediv ops issue_count 100 = Some q \<and>
                   quality_score m = float_sub ops 1.0 q
          else quality_score m = 0.0) \<and>
         milestone_completion_rate m =
           (if ms = [] then count_truediv ops 0 1
            else count_truediv ops
                   (length (filter (\<lambda>x. status x = Some ''completed'') ms)) (length ms)) \<and>
         (0 \<le> issue_count \<longrightarrow> sev1_defects m = issue_count div 10))"
proof -
  define ic where "ic =
     (case find (\<lambda>k. \<exists>p q. lower (dict_get (kpi_metric k) []) = p @ ''issue'' @ q)
             (dict_get (pd_kpis pd) []) of
        None \<Rightarrow> 0
      | Some k \<Rightarrow> dict_get (kpi_value k) 0)"
  note E = extract_metrics_unfold [OF ic_def, of ops]
  show ?thesis
    unfolding Let_def ic_def [symmetric] E
    by (cases "ic < 100"; cases "int_truediv ops ic 100") simp_all
qed

text \<open>The substring test on the metric names used below.\<close>

lemma contains_issue_samples:
  "contains ''issue'' (lower ''Open Issues'')"
  "\<not> contains ''issue'' (lower ''Velocity'')"
  "contains ''issue'' (lower ''issues'')"
  by code_simp+

text \<open>
  A project with one completed and one at-risk milestone, two high risks and a low one,
  and 23 open issues in its second KPI.
\<close>

theorem extract_metrics_formulas_witness:
  "map_sum id
     (\<lambda>m. (spi m, cpi m, quality_score m, risk_score m, defect_count m, sev1_defects m,
           sev2_defects m, milestone_completion_rate m))
     (extract_metrics exact_ops
        \<lparr>pd_id = None, pd_name = None,
         pd_milestones = Some [\<lparr>status = Some ''completed''\<rparr>, \<lparr>status = Some ''at-risk''\<rparr>],
         pd_risks = Some [\<lparr>severity = Some ''high''\<rparr>, \<lparr>severity = Some ''high''\<rparr>,
                          \<lparr>severity = Some ''low''\<rparr>],
         pd_kpis = Some [\<lparr>kpi_metric = Some ''Velocity'', kpi_value = Some 7\<rparr>,
                         \<lparr>kpi_metric = Some ''Open Issues'', kpi_value = Some 23\<rparr>]\<rparr>) =
   Inr (0.95, 0.98, 0.77, 0.6, 23, 2, 2, 0.5)"
proof -
  let ?pd = "\<lparr>pd_id = None, pd_name = None,
         pd_milestones = Some [\<lparr>status = Some ''completed''\<rparr>, \<lparr>status = Some ''at-risk''\<rparr>],
         pd_risks = Some [\<lparr>severity = Some ''high''\<rparr>, \<lparr>severity = Some ''high''\<rparr>,
                          \<lparr>severity = Some ''low''\<rparr>],
         pd_kpis = Some [\<lparr>kpi_metric = Some ''Velocity'', kpi_value = Some 7\<rparr>,
                         \<lparr>kpi_metric = Some ''Open Issues'', kpi_value = Some 23\<rparr>]\<rparr>"
  note t = extract_metrics_formulas [where ops = exact_ops and pd = ?pd, unfolded Let_def contains_iff [symmetric]]
  have ic: "(case find (\<lambda>k. contains ''issue'' (lower (dict_get (kpi_metric k) [])))
               (dict_get (pd_kpis ?pd) []) of
        None \<Rightarrow> 0
      | Some k \<Rightarrow> dict_get (kpi_value k) 0) = 23"
    by (simp add: dict_get_def contains_issue_samples)
  have q: "int_truediv exact_ops 23 100 = Some 0.23"
    by (simp add: exact_ops_def)
  from t obtain m where m: "extract_metrics exact_ops ?pd = Inr m"
    unfolding ic using q by auto
  from t m have
    "spi m = 0.95" "cpi m = 0.98" "quality_score m = 0.77" "risk_score m = 0.6"
    "defect_count m = 23" "sev1_defects m = 2" "sev2_defects m = 2"
    "milestone_completion_rate m = 0.5"
    unfolding ic using q by (auto simp: dict_get_def exact_ops_def)
  with m show ?thesis by simp
qed

text \<open>
  C8, as stated, fails on sev1 for a negative issue count: with the KPI value -5 the code
  clamps sev1 to 0, and -5 // 10 is -1.
\<close>

theorem extract_metrics_formulas_counterexample:
  "map_sum id (\<lambda>m. (defect_count m, sev1_defects m, defect_count m div 10))
     (extract_metrics exact_ops
        \<lparr>pd_id = None, pd_name = None, pd_milestones = None, pd_risks = None,
         pd_kpis = Some [\<lparr>kpi_metric = Some ''issues'', kpi_value = Some (- 5)\<rparr>]\<rparr>) =
   Inr (- 5, 0, - 1)"
  by (simp add: extract_metrics_def Let_def dict_get_def contains_issue_samples exact_ops_def)

section \<open>The cost dimension on the engine's path\<close>

lemma extract_metrics_cpi:
  assumes "extract_metrics ops pd = Inr m"
  shows "cpi m = 0.98"
  using assms
  by (auto simp: extract_metrics_def Let_def split: if_splits option.splits)

lemma no_cost_titles:
  assumes "cpi m = 0.98"
  shows "''Cost Performance Under Budget'' \<notin> set (map title (detect_highlights m pm pd))"
    and "''Cost Overrun Risk'' \<notin> set (map title (detect_lowlights m pm pd))"
    and "''cost'' \<notin> set (map category (detect_highlights m pm pd))"
    and "''cost'' \<notin> set (map category (detect_lowlights m pm pd))"
proof -
  have h: "map title (detect_highlights m pm pd) =
      map snd (map (\<lambda>e. (category e, title e)) (detect_highlights m pm pd))"
    and hc: "map category (detect_highlights m pm pd) =
      map fst (map (\<lambda>e. (category e, title e)) (detect_highlights m pm pd))"
    and l: "map title (detect_lowlights m pm pd) =
      map (\<lambda>t. fst (snd t))
        (map (\<lambda>e. (category e, title e, action_required e)) (detect_lowlights m pm pd))"
    and lc: "map category (detect_lowlights m pm pd) =
      map fst (map (\<lambda>e. (category e, title e, action_required e)) (detect_lowlights m pm pd))"
    by (simp_all add: comp_def)
  show "''Cost Performance Under Budget'' \<notin> set (map title (detect_highlights m pm pd))"
    unfolding h detect_highlights_rules using assms by simp
  show "''Cost Overrun Risk'' \<notin> set (map title (detect_lowlights m pm pd))"
    unfolding l detect_lowlights_rules using assms by simp
  show "''cost'' \<notin> set (map category (detect_highlights m pm pd))"
    unfolding hc detect_highlights_rules using assms by simp
  show "''cost'' \<notin> set (map category (detect_lowlights m pm pd))"
    unfolding lc detect_lowlights_rules using assms by simp
qed

text \<open>
  C10. The cpi of the extracted metrics is 0.98 for every project, so their cost status is
  green; and in every result of \<^verbatim>\<open>evaluate_project\<close> there is neither the highlight Cost
  Performance Under Budget nor the lowlight Cost Overrun Risk, nor any record of category
  cost. Without a history the engine returns a result whenever the metrics are extracted.
\<close>

theorem cost_dimension_is_constant:
  "(\<forall>m. extract_metrics ops pd = Inr m \<longrightarrow>
      cpi m = 0.98 \<and> evaluate_cost_health m = GREEN) \<and>
   (\<forall>ps. evaluate_project ops fromisoformat set_iter now stamp pd h = Inr ps \<longrightarrow>
      cpi (ps_health_metrics ps) = 0.98 \<and>
      ''Cost Performance Under Budget'' \<notin> set (map title (ps_highlights ps)) \<and>
      ''Cost Overrun Risk'' \<notin> set (map title (ps_lowlights ps)) \<and>
      ''cost'' \<notin> set (map category (ps_highlights ps)) \<and>
      ''cost'' \<notin> set (map category (ps_lowlights ps))) \<and>
   ((h = None \<or> h = Some []) \<and> (\<exists>m. extract_metrics ops pd = Inr m) \<longrightarrow>
      (\<exists>ps. evaluate_project ops fromisoformat set_iter now stamp pd h = Inr ps))"
proof (intro conjI allI impI)
  fix m
  assume "extract_metrics ops pd = Inr m"
  then show c: "cpi m = 0.98"
    by (rule extract_metrics_cpi)
  then show "evaluate_cost_health m = GREEN"
    by (simp add: evaluate_cost_health_def thresholds)
next
  fix ps
  assume "evaluate_project ops fromisoformat set_iter now stamp pd h = Inr ps"
  note f = evaluate_project_fields [OF this]
  then show c: "cpi (ps_health_metrics ps) = 0.98"
    by (intro extract_metrics_cpi [of ops pd]) simp
  from f show "''Cost Performance Under Budget'' \<notin> set (map title (ps_highlights ps))"
    using no_cost_titles(1) [OF c] by simp
  from f show "''Cost Overrun Risk'' \<notin> set (map title (ps_lowlights ps))"
    using no_cost_titles(2) [OF c] by simp
  from f show "''cost'' \<notin> set (map category (ps_highlights ps))"
    using no_cost_titles(3) [OF c] by simp
  from f show "''cost'' \<notin> set (map category (ps_lowlights ps))"
    using no_cost_titles(4) [OF c] by simp
next
  assume "(h = None \<or> h = Some []) \<and> (\<exists>m. extract_metrics ops pd = Inr m)"
  then obtain m where "h = None \<or> h = Some []" "extract_metrics ops pd = Inr m"
    by blast
  from evaluate_project_no_history [OF this, of fromisoformat set_iter now stamp]
  show "\<exists>ps. evaluate_project ops fromisoformat set_iter now stamp pd h = Inr ps"
    by blast
qed

text \<open>The result for the project without any key, evaluated without history.\<close>

theorem cost_dimension_is_constant_witness:
  "\<exists>ps. evaluate_project exact_ops Map.empty remdups 1209600000000 1209600000000
          \<lparr>pd_id = None, pd_name = None, pd_milestones = None, pd_risks = None,
           pd_kpis = None\<rparr> None = Inr ps \<and>
        cpi (ps_health_metrics ps) = 0.98 \<and>
        ''Cost Performance Under Budget'' \<notin> set (map title (ps_highlights ps)) \<and>
        ''Cost Overrun Risk'' \<notin> set (map title (ps_lowlights ps))"
  using cost_dimension_is_constant [where h = None and fromisoformat = Map.empty
      and ops = exact_ops
      and set_iter = remdups and now = 1209600000000 and stamp = 1209600000000 and pd =
      "\<lparr>pd_id = None, pd_name = None, pd_milestones = None, pd_risks = None, pd_kpis = None\<rparr>"]
    extract_metrics_no_kpis
  by blast

end
